theory Spec2Isabelle
  imports
    Main
    "HOL-Library.List_Lexorder"
    "HOL-Library.Char_ord"
    "HOL-Library.Word"
    "HOL-Library.Signed_Division"
begin

unbundle bit_operations_syntax

section \<open>Strings\<close>

text \<open>
  Go strings are byte sequences and \<open><\<close> on them is the bytewise lexicographic order;
  here a string is a \<open>char list\<close> with the lexicographic order of
  \<open>List_Lexorder\<close> over the byte order of \<open>Char_ord\<close>.

  \<open>strings.ReplaceAll(s, old, "")\<close> with a one-character \<open>old\<close> removes every
  occurrence of that character; \<open>strings.Contains(s, c)\<close> with a one-character \<open>c\<close>
  tests membership.
\<close>

definition ReplaceAll :: "string \<Rightarrow> char \<Rightarrow> string" where
  "ReplaceAll s old = filter (\<lambda>c. c \<noteq> old) s"

definition Contains :: "string \<Rightarrow> char \<Rightarrow> bool" where
  "Contains s c = (c \<in> set s)"

text \<open>
  \<open>strings.TrimSpace\<close> removes the leading and the trailing white space of a string
  read as UTF-8. White space is what \<open>unicode.IsSpace\<close> accepts: tab, line feed,
  vertical tab, form feed, carriage return, space, U+0085, U+00A0, U+1680, U+2000 to
  U+200A, U+2028, U+2029, U+202F, U+205F and U+3000, listed here by their encodings.
  Where no such encoding begins (or, from the end, ends) the trimming stops: the rune Go
  decodes there, the character itself or U+FFFD for a malformed sequence, is not white
  space.
\<close>

definition whiteSpace :: "string list" where
  "whiteSpace =
     [[CHR 0x09], [CHR 0x0A], [CHR 0x0B], [CHR 0x0C], [CHR 0x0D], [CHR 0x20],
      [CHR 0xC2, CHR 0x85], [CHR 0xC2, CHR 0xA0],
      [CHR 0xE1, CHR 0x9A, CHR 0x80],
      [CHR 0xE2, CHR 0x80, CHR 0x80], [CHR 0xE2, CHR 0x80, CHR 0x81],
      [CHR 0xE2, CHR 0x80, CHR 0x82], [CHR 0xE2, CHR 0x80, CHR 0x83],
      [CHR 0xE2, CHR 0x80, CHR 0x84], [CHR 0xE2, CHR 0x80, CHR 0x85],
      [CHR 0xE2, CHR 0x80, CHR 0x86], [CHR 0xE2, CHR 0x80, CHR 0x87],
      [CHR 0xE2, CHR 0x80, CHR 0x88], [CHR 0xE2, CHR 0x80, CHR 0x89],
      [CHR 0xE2, CHR 0x80, CHR 0x8A],
      [CHR 0xE2, CHR 0x80, CHR 0xA8], [CHR 0xE2, CHR 0x80, CHR 0xA9],
      [CHR 0xE2, CHR 0x80, CHR 0xAF], [CHR 0xE2, CHR 0x81, CHR 0x9F],
      [CHR 0xE3, CHR 0x80, CHR 0x80]]"

text \<open>
  Trimming from the front: as long as the string begins with one of the given
  sequences, that sequence is dropped.
\<close>

function dropLeading :: "string list \<Rightarrow> string \<Rightarrow> string" where
  "dropLeading encodings s =
     (case List.find (\<lambda>e. e \<noteq> [] \<and> take (length e) s = e) encodings of
        None \<Rightarrow> s
      | Some e \<Rightarrow> dropLeading encodings (drop (length e) s))"
  by pat_completeness auto
termination
proof (relation "measure (\<lambda>(encodings, s). length s)")
  fix encodings :: "string list" and s e :: string
  assume "List.find (\<lambda>e. e \<noteq> [] \<and> take (length e) s = e) encodings = Some e"
  then have e: "e \<noteq> []" "take (length e) s = e"
    by (auto simp: find_Some_iff)
  from e(2) have "length (take (length e) s) = length e"
    by simp
  then have "length e \<le> length s"
    by simp
  with e(1) show "((encodings, drop (length e) s), (encodings, s))
      \<in> measure (\<lambda>(encodings, s). length s)"
    by (cases e) auto
qed simp

text \<open>Trimming from the end is trimming the reversed string of the reversed sequences.\<close>

definition TrimSpace :: "string \<Rightarrow> string" where
  "TrimSpace s = rev (dropLeading (map rev whiteSpace) (rev (dropLeading whiteSpace s)))"

section \<open>Errors\<close>

text \<open>
  Go's \<open>int\<close> and \<open>time.Duration\<close> (an \<open>int64\<close>) are 64-bit two's complement
  words: arithmetic wraps, comparisons are the signed ones (\<open><s\<close>, \<open>\<le>s\<close>). Identifiers and status codes, on which the code only tests
  equality, are plain integers.
\<close>

type_synonym go_int = "64 word"
type_synonym Duration = "64 word"

text \<open>
  The quotient \<open>a / b\<close> of two \<open>int\<close>s, truncated towards zero. Go panics when
  \<open>b\<close> is zero; the one division of the code modelled here has a positive divisor.
\<close>

definition quo :: "go_int \<Rightarrow> go_int \<Rightarrow> go_int" where
  "quo a b = word_of_int (sint a sdiv sint b)"

definition Millisecond :: Duration where "Millisecond = 1000000"
definition Second :: Duration where "Second = 1000000000"
definition Minute :: Duration where "Minute = 60 * Second"

text \<open>
  An \<open>error\<close> value: a \<open>*domain.ProviderError\<close>, an error made by \<open>fmt.Errorf\<close>
  without (\<open>Errorf\<close>) or with (\<open>Wrap\<close>, the \<open>%w\<close> verb) an inner error, the two
  errors a context reports, and the run-time panic of a nil dereference.
\<close>

datatype error =
    ProviderError (Code: int) (Message: string) (RetryAfter: go_int)
  | Errorf string
  | Wrap string error
  | Canceled
  | DeadlineExceeded
  | Panic string

text \<open>\<open>domain.IsRetryableError\<close>: the type assertion does not look through wrappers.\<close>

definition IsRetryableError :: "error \<Rightarrow> bool" where
  "IsRetryableError err =
     (case err of
        ProviderError code _ _ \<Rightarrow>
          code = 429 \<or> code = 500 \<or> code = 502 \<or> code = 503 \<or> code = 504
      | _ \<Rightarrow> False)"

text \<open>\<open>domain.GetRetryAfterSeconds\<close>.\<close>

definition GetRetryAfterSeconds :: "error \<Rightarrow> go_int" where
  "GetRetryAfterSeconds err =
     (case err of
        ProviderError code _ retryAfter \<Rightarrow> if code = 429 then retryAfter else 0
      | _ \<Rightarrow> 0)"

section \<open>Time\<close>

text \<open>
  A \<open>time.Time\<close> is an instant, counted in nanoseconds from Go's zero time
  (January 1 of year 1, 00:00:00 UTC), and a location. Only the identity of the location
  with \<open>time.UTC\<close> is observed by the code. Instants are unbounded integers: the
  saturation of \<open>time.Time\<close> arithmetic some hundred billion years away is not modelled.
\<close>

datatype Location = UTC | Zone string

record Time =
  nanos :: int
  loc :: Location

definition zeroTime :: Time where
  "zeroTime = \<lparr>nanos = 0, loc = UTC\<rparr>"

definition IsZero :: "Time \<Rightarrow> bool" where
  "IsZero t = (nanos t = 0)"

definition After :: "Time \<Rightarrow> Time \<Rightarrow> bool" where
  "After t u = (nanos u < nanos t)"

definition Before :: "Time \<Rightarrow> Time \<Rightarrow> bool" where
  "Before t u = (nanos t < nanos u)"

definition Add :: "Time \<Rightarrow> Duration \<Rightarrow> Time" where
  "Add t d = t\<lparr>nanos := nanos t + sint d\<rparr>"

definition toUTC :: "Time \<Rightarrow> Time" where
  "toUTC t = t\<lparr>loc := UTC\<rparr>"

text \<open>
  The proleptic Gregorian calendar of package \<open>time\<close>: \<open>time.Date\<close> for a UTC date
  with a month from 1 to 12, the time of day given as the nanosecond of the day. As in
  Go, a day past the end of its month runs into the next month.
\<close>

definition nsPerDay :: int where
  "nsPerDay = 86400 * 1000000000"

definition isLeap :: "int \<Rightarrow> bool" where
  "isLeap year = (year mod 4 = 0 \<and> (year mod 100 \<noteq> 0 \<or> year mod 400 = 0))"

definition daysBefore :: "int \<Rightarrow> int" where
  "daysBefore month = [0, 31, 59, 90, 120, 151, 181, 212, 243, 273, 304, 334, 365] ! nat month"

definition daysSinceEpoch :: "int \<Rightarrow> int" where
  "daysSinceEpoch year = (let y = year - 1 in 365 * y + y div 4 - y div 100 + y div 400)"

definition Date :: "int \<Rightarrow> int \<Rightarrow> int \<Rightarrow> int \<Rightarrow> Time" where
  "Date year month day nsOfDay =
     (let d = daysSinceEpoch year + daysBefore (month - 1);
          d = (if isLeap year \<and> 3 \<le> month then d + 1 else d);
          d = d + (day - 1)
      in \<lparr>nanos = d * nsPerDay + nsOfDay, loc = UTC\<rparr>)"

text \<open>
  A reading of the clock: what \<open>time.Now().UTC()\<close> returns, given by the calendar date
  and the nanosecond of the day that \<open>Time.Date\<close> and \<open>Time.Clock\<close> report for it.
\<close>

record Clock =
  clk_year :: int
  clk_month :: int
  clk_day :: int
  clk_nsOfDay :: int

definition Now :: "Clock \<Rightarrow> Time" where
  "Now clk = Date (clk_year clk) (clk_month clk) (clk_day clk) (clk_nsOfDay clk)"

text \<open>
  \<open>now.AddDate(years, 0, 0)\<close> for the clock reading \<open>now\<close>: the same month, day and
  time of day in the year \<open>years\<close> later.
\<close>

definition AddDate :: "Clock \<Rightarrow> int \<Rightarrow> Time" where
  "AddDate clk years =
     Date (clk_year clk + years) (clk_month clk) (clk_day clk) (clk_nsOfDay clk)"

section \<open>Domain types\<close>

definition MessageTypeSMS :: string where "MessageTypeSMS = ''sms''"
definition MessageTypeMMS :: string where "MessageTypeMMS = ''mms''"
definition MessageTypeEmail :: string where "MessageTypeEmail = ''email''"

record Message =
  m_ID :: int
  m_ConversationID :: int
  m_From :: string
  m_To :: string
  m_Type :: string
  m_Body :: string
  m_Attachments :: "string list"
  m_Status :: string
  m_ErrorCode :: "string option"
  m_ErrorMessage :: "string option"
  m_Timestamp :: Time
  m_MessagingProviderID :: "string option"
  m_CreatedAt :: Time
  m_UpdatedAt :: Time

record Conversation =
  c_ID :: int
  c_CustomerContact :: string
  c_BusinessContact :: string
  c_CreatedAt :: Time
  c_UpdatedAt :: Time
  c_Messages :: "Message list"

record SendSMSRequest =
  sms_From :: string
  sms_To :: string
  sms_Type :: string
  sms_Body :: string
  sms_Attachments :: "string list"
  sms_Timestamp :: Time

record SendEmailRequest =
  eml_From :: string
  eml_To :: string
  eml_Body :: string
  eml_Attachments :: "string list"
  eml_Timestamp :: Time

record InboundSMSWebhook =
  isms_From :: string
  isms_To :: string
  isms_Type :: string
  isms_MessagingProviderID :: string
  isms_Body :: string
  isms_Attachments :: "string list"
  isms_Timestamp :: Time

record InboundEmailWebhook =
  ieml_From :: string
  ieml_To :: string
  ieml_XillioID :: string
  ieml_Body :: string
  ieml_Attachments :: "string list"
  ieml_Timestamp :: Time

record ConversationQuery =
  q_BusinessEmail :: string
  q_BusinessPhone :: string
  q_Search :: string
  q_From :: Time
  q_To :: Time
  q_MessageType :: string
  q_Limit :: go_int
  q_Offset :: go_int
  q_SortBy :: string
  q_SortOrder :: string
  q_IncludeMessages :: bool

record GetConversationsResponse =
  r_Conversations :: "Conversation list"
  r_Total :: go_int
  r_Page :: go_int
  r_PerPage :: go_int
  r_HasMore :: bool

section \<open>Contact normalization\<close>

text \<open>
  \<open>messagingService.normalizeContacts\<close> (messaging\_service.go), the function that
  \<open>createMessageRecord\<close> calls before resolving the conversation.
  \<open>sort.Strings\<close> on the two-element slice is \<open>sort\<close>.
\<close>

definition ms_normalizeContacts :: "string \<Rightarrow> string \<Rightarrow> string \<times> string" where
  "ms_normalizeContacts customerContact businessContact =
     (if Contains customerContact CHR ''@'' \<and> Contains businessContact CHR ''@'' then
        (let contacts = sort [customerContact, businessContact]
         in (contacts ! 0, contacts ! 1))
      else
        (let cleanCustomer = ReplaceAll customerContact CHR ''-'';
             cleanBusiness = ReplaceAll businessContact CHR ''-''
         in if cleanCustomer < cleanBusiness then (customerContact, businessContact)
            else (businessContact, customerContact)))"

text \<open>\<open>conversationService.normalizeContacts\<close> (conversation\_service.go).\<close>

definition cs_normalizeContacts :: "string \<Rightarrow> string \<Rightarrow> string \<times> string" where
  "cs_normalizeContacts customerContact businessContact =
     (let customer = ReplaceAll customerContact CHR ''-'';
          customer = ReplaceAll customer CHR '' '';
          customer = ReplaceAll customer CHR ''('';
          customer = ReplaceAll customer CHR '')'';
          business = ReplaceAll businessContact CHR ''-'';
          business = ReplaceAll business CHR '' '';
          business = ReplaceAll business CHR ''('';
          business = ReplaceAll business CHR '')''
      in if Contains customer CHR ''@'' \<and> Contains business CHR ''@'' then
           (if customer < business then (customer, business) else (business, customer))
         else
           (if customer < business then (customer, business) else (business, customer)))"

text \<open>
  The stripping of the four formatting characters, as the chain of replacements at the
  head of \<open>conversationService.normalizeContacts\<close> performs it on each address.
\<close>

definition stripFormatting :: "string \<Rightarrow> string" where
  "stripFormatting s =
     ReplaceAll (ReplaceAll (ReplaceAll (ReplaceAll s CHR ''-'') CHR '' '') CHR ''('') CHR '')''"

section \<open>Retry engine\<close>

text \<open>\<open>RetryConfig\<close>; its \<open>Multiplier\<close> field, a float that no code reads, is left out.\<close>

record RetryConfig =
  MaxRetries :: int
  BaseDelay :: Duration
  MaxDelay :: Duration

definition DefaultRetryConfig :: RetryConfig where
  "DefaultRetryConfig = \<lparr>MaxRetries = 3, BaseDelay = Second, MaxDelay = Minute\<rparr>"

definition TestRetryConfig :: RetryConfig where
  "TestRetryConfig =
     \<lparr>MaxRetries = 3, BaseDelay = Millisecond * 10, MaxDelay = Millisecond * 100\<rparr>"

text \<open>
  The delay computed in the body of \<open>retryWithBackoff\<close> after a retryable failure of
  attempt \<open>attempt\<close>: \<open>BaseDelay * time.Duration(1<<attempt)\<close>, capped, then replaced
  when the error carries a positive retry-after.
\<close>

definition backoffDelay :: "RetryConfig \<Rightarrow> int \<Rightarrow> error \<Rightarrow> Duration" where
  "backoffDelay cfg attempt err =
     (let delay = BaseDelay cfg * push_bit (nat attempt) 1;
          delay = (if MaxDelay cfg <s delay then MaxDelay cfg else delay);
          retryAfter = GetRetryAfterSeconds err
      in if 0 <s retryAfter then
           (let retryDelay = retryAfter * Second
            in if retryDelay <s MaxDelay cfg then retryDelay else MaxDelay cfg)
         else delay)"

text \<open>
  The context, as the \<open>select\<close> of the loop sees it: \<open>ctx n\<close> is \<open>None\<close> when the
  timer of the wait number \<open>n\<close> fires first, and \<open>Some e\<close> when \<open>ctx.Done()\<close> is
  chosen, \<open>e\<close> being \<open>ctx.Err()\<close>.

  The wrapped operation is a closure over the provider; \<open>operation n\<close> is what its
  invocation number \<open>n\<close> (counted from 0) returns, \<open>None\<close> for \<open>nil\<close>.

  A run of the loop reports what it returns, how often it has invoked the operation and
  the delays it has waited for, in order.
\<close>

type_synonym Context = "nat \<Rightarrow> error option"

record RetryRun =
  result :: "error option"
  calls :: nat
  waits :: "Duration list"

function retryLoop ::
  "Context \<Rightarrow> RetryConfig \<Rightarrow> (nat \<Rightarrow> error option) \<Rightarrow> int \<Rightarrow> nat \<Rightarrow> Duration list \<Rightarrow> RetryRun"
where
  "retryLoop ctx cfg operation attempt n ws =
     (if attempt \<le> MaxRetries cfg then
        (case operation n of
           None \<Rightarrow> \<lparr>result = None, calls = Suc n, waits = ws\<rparr>
         | Some err \<Rightarrow>
             if \<not> IsRetryableError err then \<lparr>result = Some err, calls = Suc n, waits = ws\<rparr>
             else if attempt = MaxRetries cfg then
               \<lparr>result = Some err, calls = Suc n, waits = ws\<rparr>
             else
               (let delay = backoffDelay cfg attempt err
                in case ctx (length ws) of
                     Some ctxErr \<Rightarrow> \<lparr>result = Some ctxErr, calls = Suc n, waits = ws\<rparr>
                   | None \<Rightarrow> retryLoop ctx cfg operation (attempt + 1) (Suc n) (ws @ [delay])))
      else \<lparr>result = Some (Errorf ''max retries exceeded''), calls = n, waits = ws\<rparr>)"
  by pat_completeness auto
termination
  by (relation "measure (\<lambda>(ctx, cfg, operation, attempt, n, ws). nat (MaxRetries cfg + 1 - attempt))")
    auto

definition retryWithBackoff ::
  "Context \<Rightarrow> RetryConfig \<Rightarrow> (nat \<Rightarrow> error option) \<Rightarrow> RetryRun" where
  "retryWithBackoff ctx cfg operation = retryLoop ctx cfg operation 0 0 []"

section \<open>Providers\<close>

text \<open>
  The provider interfaces. Each method takes, before its arguments, the number of
  calls the request has already made to the provider.
\<close>

record Providers =
  p_SendSMS :: "nat \<Rightarrow> string \<Rightarrow> string \<Rightarrow> string \<Rightarrow> error option"
  p_SendMMS :: "nat \<Rightarrow> string \<Rightarrow> string \<Rightarrow> string \<Rightarrow> string list \<Rightarrow> error option"
  p_SendEmail :: "nat \<Rightarrow> string \<Rightarrow> string \<Rightarrow> string \<Rightarrow> string list \<Rightarrow> error option"

section \<open>Repositories\<close>

text \<open>
  The two tables, rows in insertion order, and the two \<open>SERIAL\<close> sequences.
\<close>

record DB =
  conversationRows :: "Conversation list"
  messageRows :: "Message list"
  conversationSeq :: int
  messageSeq :: int

text \<open>
  What one call of a service operation meets outside the program: the clock readings
  (during validation, for \<open>CreatedAt\<close>, for \<open>UpdatedAt\<close>, and the database's
  \<open>CURRENT_TIMESTAMP\<close>), and for each statement the repositories run, the error the
  driver reports for it (\<open>None\<close> when the statement runs). Such an error stands for any
  failure of the statement other than the uniqueness of a conversation's contact pair,
  which is modelled.
\<close>

record Env =
  validateNow :: Clock
  createdNow :: int
  updatedNow :: int
  dbNow :: int
  errGetByProviderMessageID :: "error option"
  errGetByContacts :: "error option"
  errCreateConversation :: "error option"
  errCreateMessage :: "error option"

text \<open>\<open>conversationRepository.GetByContacts\<close>: the pair is matched in either order.\<close>

definition GetByContacts :: "Env \<Rightarrow> DB \<Rightarrow> string \<Rightarrow> string \<Rightarrow> error + Conversation option" where
  "GetByContacts env db customerContact businessContact =
     (case errGetByContacts env of
        Some err \<Rightarrow> Inl (Wrap ''failed to get conversation by contacts'' err)
      | None \<Rightarrow>
          (case filter (\<lambda>c. (c_CustomerContact c = customerContact \<and>
                             c_BusinessContact c = businessContact) \<or>
                            (c_CustomerContact c = businessContact \<and>
                             c_BusinessContact c = customerContact))
                  (conversationRows db) of
             [] \<Rightarrow> Inr None
           | conv # _ \<Rightarrow> Inr (Some conv)))"

text \<open>
  \<open>conversationRepository.Create\<close>: the \<open>INSERT\<close> fails when the table holds the same
  ordered pair (\<open>UNIQUE(customer_contact, business_contact)\<close>); the sequence has then
  been advanced all the same.
\<close>

definition CreateConversation ::
  "Env \<Rightarrow> DB \<Rightarrow> string \<Rightarrow> string \<Rightarrow> (error + Conversation) \<times> DB" where
  "CreateConversation env db customerContact businessContact =
     (case errCreateConversation env of
        Some err \<Rightarrow> (Inl (Wrap ''failed to create conversation'' err), db)
      | None \<Rightarrow>
          if \<exists>c \<in> set (conversationRows db).
               c_CustomerContact c = customerContact \<and> c_BusinessContact c = businessContact
          then (Inl (Wrap ''failed to create conversation'' (Errorf ''unique violation'')),
                db\<lparr>conversationSeq := conversationSeq db + 1\<rparr>)
          else
            (let conv = \<lparr>c_ID = conversationSeq db,
                         c_CustomerContact = customerContact,
                         c_BusinessContact = businessContact,
                         c_CreatedAt = \<lparr>nanos = dbNow env, loc = UTC\<rparr>,
                         c_UpdatedAt = \<lparr>nanos = dbNow env, loc = UTC\<rparr>,
                         c_Messages = []\<rparr>
             in (Inr conv,
                 db\<lparr>conversationRows := conversationRows db @ [conv],
                    conversationSeq := conversationSeq db + 1\<rparr>)))"

text \<open>\<open>conversationRepository.GetOrCreate\<close>.\<close>

definition GetOrCreate ::
  "Env \<Rightarrow> DB \<Rightarrow> string \<Rightarrow> string \<Rightarrow> (error + Conversation) \<times> DB" where
  "GetOrCreate env db customerContact businessContact =
     (case GetByContacts env db customerContact businessContact of
        Inl err \<Rightarrow> (Inl err, db)
      | Inr (Some conv) \<Rightarrow> (Inr conv, db)
      | Inr None \<Rightarrow> CreateConversation env db customerContact businessContact)"

text \<open>\<open>messageRepository.Create\<close>: the row gets the next identifier.\<close>

definition CreateMessage :: "Env \<Rightarrow> DB \<Rightarrow> Message \<Rightarrow> error option \<times> DB" where
  "CreateMessage env db message =
     (case errCreateMessage env of
        Some err \<Rightarrow> (Some (Wrap ''failed to create message'' err), db)
      | None \<Rightarrow>
          (None,
           db\<lparr>messageRows := messageRows db @ [message\<lparr>m_ID := messageSeq db\<rparr>],
              messageSeq := messageSeq db + 1\<rparr>))"

text \<open>\<open>messageRepository.GetByProviderMessageID\<close>: no row gives \<open>(nil, nil)\<close>.\<close>

definition GetByProviderMessageID :: "Env \<Rightarrow> DB \<Rightarrow> string \<Rightarrow> error + Message option" where
  "GetByProviderMessageID env db providerMessageID =
     (case errGetByProviderMessageID env of
        Some err \<Rightarrow> Inl (Wrap ''failed to get message by provider ID'' err)
      | None \<Rightarrow>
          (case filter (\<lambda>m. m_MessagingProviderID m = Some providerMessageID) (messageRows db) of
             [] \<Rightarrow> Inr None
           | message # _ \<Rightarrow> Inr (Some message)))"

section \<open>Validation\<close>

text \<open>
  \<open>messagingService.validateTimestamp\<close>; \<open>clk\<close> is what the clock reads when the
  function asks for the time. The messages leave out the formatted bound that the code
  appends.
\<close>

definition validateTimestamp :: "Clock \<Rightarrow> Time \<Rightarrow> error option" where
  "validateTimestamp clk timestamp =
     (if loc timestamp \<noteq> UTC then Some (Errorf ''timestamp must be in UTC timezone'')
      else
        (let now = Now clk in
         if IsZero timestamp then Some (Errorf ''timestamp cannot be zero'')
         else
           (let maxFuture = Add now (5 * Minute) in
            if After timestamp maxFuture then
              Some (Errorf ''timestamp cannot be in the future'')
            else
              (let minPast = AddDate clk (- 10) in
               if Before timestamp minPast then Some (Errorf ''timestamp too old'')
               else
                 (let year2000 = Date 2000 1 1 0 in
                  if Before timestamp year2000 then
                    Some (Errorf ''timestamp before year 2000 is not allowed'')
                  else None)))))"

text \<open>\<open>messagingService.validateSMSRequest\<close>; \<open>None\<close> is the nil request.\<close>

definition validateSMSRequest :: "Clock \<Rightarrow> SendSMSRequest option \<Rightarrow> error option" where
  "validateSMSRequest clk req =
     (case req of
        None \<Rightarrow> Some (Errorf ''request cannot be nil'')
      | Some r \<Rightarrow>
          if TrimSpace (sms_From r) = '''' then Some (Errorf ''from address cannot be empty'')
          else if TrimSpace (sms_To r) = '''' then Some (Errorf ''to address cannot be empty'')
          else if TrimSpace (sms_Body r) = '''' then Some (Errorf ''message body cannot be empty'')
          else if sms_Type r \<noteq> MessageTypeSMS \<and> sms_Type r \<noteq> MessageTypeMMS then
            Some (Errorf (''invalid message type: '' @ sms_Type r))
          else
            (case validateTimestamp clk (sms_Timestamp r) of
               Some err \<Rightarrow> Some (Wrap ''invalid timestamp'' err)
             | None \<Rightarrow> None))"

text \<open>\<open>messagingService.validateEmailRequest\<close>.\<close>

definition validateEmailRequest :: "Clock \<Rightarrow> SendEmailRequest option \<Rightarrow> error option" where
  "validateEmailRequest clk req =
     (case req of
        None \<Rightarrow> Some (Errorf ''request cannot be nil'')
      | Some r \<Rightarrow>
          if TrimSpace (eml_From r) = '''' then Some (Errorf ''from address cannot be empty'')
          else if TrimSpace (eml_To r) = '''' then Some (Errorf ''to address cannot be empty'')
          else if TrimSpace (eml_Body r) = '''' then Some (Errorf ''message body cannot be empty'')
          else
            (case validateTimestamp clk (eml_Timestamp r) of
               Some err \<Rightarrow> Some (Wrap ''invalid timestamp'' err)
             | None \<Rightarrow> None))"

text \<open>\<open>messagingService.validateInboundSMSWebhook\<close>.\<close>

definition validateInboundSMSWebhook :: "Clock \<Rightarrow> InboundSMSWebhook option \<Rightarrow> error option" where
  "validateInboundSMSWebhook clk webhook =
     (case webhook of
        None \<Rightarrow> Some (Errorf ''webhook cannot be nil'')
      | Some w \<Rightarrow>
          if TrimSpace (isms_From w) = '''' then Some (Errorf ''from address cannot be empty'')
          else if TrimSpace (isms_To w) = '''' then Some (Errorf ''to address cannot be empty'')
          else if TrimSpace (isms_Body w) = '''' then
            Some (Errorf ''message body cannot be empty'')
          else if isms_Type w \<noteq> MessageTypeSMS \<and> isms_Type w \<noteq> MessageTypeMMS then
            Some (Errorf (''invalid message type: '' @ isms_Type w))
          else if TrimSpace (isms_MessagingProviderID w) = '''' then
            Some (Errorf ''messaging provider ID cannot be empty'')
          else
            (case validateTimestamp clk (isms_Timestamp w) of
               Some err \<Rightarrow> Some (Wrap ''invalid timestamp'' err)
             | None \<Rightarrow> None))"

text \<open>\<open>messagingService.validateInboundEmailWebhook\<close>.\<close>

definition validateInboundEmailWebhook ::
  "Clock \<Rightarrow> InboundEmailWebhook option \<Rightarrow> error option" where
  "validateInboundEmailWebhook clk webhook =
     (case webhook of
        None \<Rightarrow> Some (Errorf ''webhook cannot be nil'')
      | Some w \<Rightarrow>
          if TrimSpace (ieml_From w) = '''' then Some (Errorf ''from address cannot be empty'')
          else if TrimSpace (ieml_To w) = '''' then Some (Errorf ''to address cannot be empty'')
          else if TrimSpace (ieml_Body w) = '''' then
            Some (Errorf ''message body cannot be empty'')
          else if TrimSpace (ieml_XillioID w) = '''' then
            Some (Errorf ''xillio ID cannot be empty'')
          else
            (case validateTimestamp clk (ieml_Timestamp w) of
               Some err \<Rightarrow> Some (Wrap ''invalid timestamp'' err)
             | None \<Rightarrow> None))"

section \<open>Messaging service\<close>

text \<open>\<open>buildOutboundMessage\<close> and \<open>buildInboundMessage\<close>; the other fields are zero.\<close>

definition buildOutboundMessage ::
  "string \<Rightarrow> string \<Rightarrow> string \<Rightarrow> string \<Rightarrow> string list \<Rightarrow> Time \<Rightarrow> Message" where
  "buildOutboundMessage from to messageType body attachments timestamp =
     (let utcTimestamp = toUTC timestamp in
      \<lparr>m_ID = 0, m_ConversationID = 0, m_From = from, m_To = to, m_Type = messageType,
       m_Body = body, m_Attachments = attachments, m_Status = ''pending'',
       m_ErrorCode = None, m_ErrorMessage = None, m_Timestamp = utcTimestamp,
       m_MessagingProviderID = None, m_CreatedAt = zeroTime, m_UpdatedAt = zeroTime\<rparr>)"

definition buildInboundMessage ::
  "string \<Rightarrow> string \<Rightarrow> string \<Rightarrow> string \<Rightarrow> string list \<Rightarrow> Time \<Rightarrow> string \<Rightarrow> Message" where
  "buildInboundMessage from to messageType body attachments timestamp providerMessageID =
     (let utcTimestamp = toUTC timestamp in
      \<lparr>m_ID = 0, m_ConversationID = 0, m_From = from, m_To = to, m_Type = messageType,
       m_Body = body, m_Attachments = attachments, m_Status = ''delivered'',
       m_ErrorCode = None, m_ErrorMessage = None, m_Timestamp = utcTimestamp,
       m_MessagingProviderID = Some providerMessageID,
       m_CreatedAt = zeroTime, m_UpdatedAt = zeroTime\<rparr>)"

text \<open>\<open>sendSMSMessage\<close>, as invocation number \<open>n\<close> of the wrapped operation.\<close>

definition sendSMSMessage :: "Providers \<Rightarrow> SendSMSRequest \<Rightarrow> nat \<Rightarrow> error option" where
  "sendSMSMessage providers req n =
     (if sms_Type req = MessageTypeSMS then
        p_SendSMS providers n (sms_From req) (sms_To req) (sms_Body req)
      else if sms_Type req = MessageTypeMMS then
        p_SendMMS providers n (sms_From req) (sms_To req) (sms_Body req) (sms_Attachments req)
      else Some (Errorf (''invalid message type: '' @ sms_Type req)))"

definition sendSMSMessageWithRetry ::
  "Context \<Rightarrow> RetryConfig \<Rightarrow> Providers \<Rightarrow> SendSMSRequest \<Rightarrow> RetryRun" where
  "sendSMSMessageWithRetry ctx cfg providers req =
     retryWithBackoff ctx cfg (sendSMSMessage providers req)"

definition sendEmailMessageWithRetry ::
  "Context \<Rightarrow> RetryConfig \<Rightarrow> Providers \<Rightarrow> SendEmailRequest \<Rightarrow> RetryRun" where
  "sendEmailMessageWithRetry ctx cfg providers req =
     retryWithBackoff ctx cfg
       (\<lambda>n. p_SendEmail providers n (eml_From req) (eml_To req) (eml_Body req)
              (eml_Attachments req))"

text \<open>\<open>createMessageRecord\<close>.\<close>

definition createMessageRecord :: "Env \<Rightarrow> DB \<Rightarrow> Message \<Rightarrow> error option \<times> DB" where
  "createMessageRecord env db message =
     (case ms_normalizeContacts (m_From message) (m_To message) of
        (customerContact, businessContact) \<Rightarrow>
          (case GetOrCreate env db customerContact businessContact of
             (Inl err, db') \<Rightarrow> (Some (Wrap ''failed to get or create conversation'' err), db')
           | (Inr conversation, db') \<Rightarrow>
               CreateMessage env db'
                 (message\<lparr>m_ConversationID := c_ID conversation,
                          m_CreatedAt := \<lparr>nanos = createdNow env, loc = Zone ''Local''\<rparr>,
                          m_UpdatedAt := \<lparr>nanos = updatedNow env, loc = Zone ''Local''\<rparr>\<rparr>)))"

text \<open>The four operations of the service.\<close>

definition SendSMS ::
  "Context \<Rightarrow> RetryConfig \<Rightarrow> Providers \<Rightarrow> Env \<Rightarrow> SendSMSRequest option \<Rightarrow> DB
     \<Rightarrow> error option \<times> DB" where
  "SendSMS ctx cfg providers env req db =
     (case validateSMSRequest (validateNow env) req of
        Some err \<Rightarrow> (Some (Wrap ''invalid SMS request'' err), db)
      | None \<Rightarrow>
          (case req of
             None \<Rightarrow> (Some (Panic ''nil pointer dereference''), db)
           | Some r \<Rightarrow>
               (case result (sendSMSMessageWithRetry ctx cfg providers r) of
                  Some err \<Rightarrow> (Some (Wrap ''failed to send message through provider'' err), db)
                | None \<Rightarrow>
                    (let message = buildOutboundMessage (sms_From r) (sms_To r) (sms_Type r)
                                     (sms_Body r) (sms_Attachments r) (sms_Timestamp r)
                     in case createMessageRecord env db message of
                          (Some err, db') \<Rightarrow> (Some (Wrap ''failed to create message'' err), db')
                        | (None, db') \<Rightarrow> (None, db')))))"

definition SendEmail ::
  "Context \<Rightarrow> RetryConfig \<Rightarrow> Providers \<Rightarrow> Env \<Rightarrow> SendEmailRequest option \<Rightarrow> DB
     \<Rightarrow> error option \<times> DB" where
  "SendEmail ctx cfg providers env req db =
     (case validateEmailRequest (validateNow env) req of
        Some err \<Rightarrow> (Some (Wrap ''invalid email request'' err), db)
      | None \<Rightarrow>
          (case req of
             None \<Rightarrow> (Some (Panic ''nil pointer dereference''), db)
           | Some r \<Rightarrow>
               (case result (sendEmailMessageWithRetry ctx cfg providers r) of
                  Some err \<Rightarrow> (Some (Wrap ''failed to send email through provider'' err), db)
                | None \<Rightarrow>
                    (let message = buildOutboundMessage (eml_From r) (eml_To r) MessageTypeEmail
                                     (eml_Body r) (eml_Attachments r) (eml_Timestamp r)
                     in case createMessageRecord env db message of
                          (Some err, db') \<Rightarrow> (Some (Wrap ''failed to create message'' err), db')
                        | (None, db') \<Rightarrow> (None, db')))))"

definition HandleInboundSMS :: "Env \<Rightarrow> InboundSMSWebhook option \<Rightarrow> DB \<Rightarrow> error option \<times> DB" where
  "HandleInboundSMS env webhook db =
     (case validateInboundSMSWebhook (validateNow env) webhook of
        Some err \<Rightarrow> (Some (Wrap ''invalid inbound SMS webhook'' err), db)
      | None \<Rightarrow>
          (case webhook of
             None \<Rightarrow> (Some (Panic ''nil pointer dereference''), db)
           | Some w \<Rightarrow>
               (case GetByProviderMessageID env db (isms_MessagingProviderID w) of
                  Inr (Some existingMessage) \<Rightarrow> (None, db)
                | _ \<Rightarrow>
                    (let message = buildInboundMessage (isms_From w) (isms_To w) (isms_Type w)
                                     (isms_Body w) (isms_Attachments w) (isms_Timestamp w)
                                     (isms_MessagingProviderID w)
                     in case createMessageRecord env db message of
                          (Some err, db') \<Rightarrow> (Some (Wrap ''failed to create message'' err), db')
                        | (None, db') \<Rightarrow> (None, db')))))"

definition HandleInboundEmail ::
  "Env \<Rightarrow> InboundEmailWebhook option \<Rightarrow> DB \<Rightarrow> error option \<times> DB" where
  "HandleInboundEmail env webhook db =
     (case validateInboundEmailWebhook (validateNow env) webhook of
        Some err \<Rightarrow> (Some (Wrap ''invalid inbound email webhook'' err), db)
      | None \<Rightarrow>
          (case webhook of
             None \<Rightarrow> (Some (Panic ''nil pointer dereference''), db)
           | Some w \<Rightarrow>
               (case GetByProviderMessageID env db (ieml_XillioID w) of
                  Inr (Some existingMessage) \<Rightarrow> (None, db)
                | _ \<Rightarrow>
                    (let message = buildInboundMessage (ieml_From w) (ieml_To w) MessageTypeEmail
                                     (ieml_Body w) (ieml_Attachments w) (ieml_Timestamp w)
                                     (ieml_XillioID w)
                     in case createMessageRecord env db message of
                          (Some err, db') \<Rightarrow> (Some (Wrap ''failed to create message'' err), db')
                        | (None, db') \<Rightarrow> (None, db')))))"

section \<open>Conversation query service\<close>

text \<open>
  The loop of \<open>GetConversations\<close> that loads the messages of each conversation;
  \<open>getByConversationID\<close> is the repository method.
\<close>

fun loadMessages ::
  "(int \<Rightarrow> error + Message list) \<Rightarrow> Conversation list \<Rightarrow> error + Conversation list" where
  "loadMessages getByConversationID [] = Inr []"
| "loadMessages getByConversationID (c # cs) =
     (case getByConversationID (c_ID c) of
        Inl err \<Rightarrow> Inl (Wrap ''failed to get messages for conversation'' err)
      | Inr msgs \<Rightarrow>
          (case loadMessages getByConversationID cs of
             Inl err \<Rightarrow> Inl err
           | Inr cs' \<Rightarrow> Inr (c\<lparr>c_Messages := msgs\<rparr> # cs')))"

text \<open>
  The head of \<open>GetConversations\<close>, which sets the defaults of the fields that are
  not provided, one field after the other.
\<close>

definition applyDefaults :: "ConversationQuery \<Rightarrow> ConversationQuery" where
  "applyDefaults query =
     (let query = (if q_Limit query \<le>s 0 then query\<lparr>q_Limit := 50\<rparr> else query);
          query = (if q_Offset query <s 0 then query\<lparr>q_Offset := 0\<rparr> else query);
          query = (if q_SortBy query = '''' then query\<lparr>q_SortBy := ''updated_at''\<rparr> else query);
          query = (if q_SortOrder query = '''' then query\<lparr>q_SortOrder := ''desc''\<rparr> else query)
      in query)"

text \<open>
  \<open>conversationService.GetConversations\<close>. The repository's \<open>List\<close> and
  \<open>GetByConversationID\<close> are parameters. The query is written through the pointer, so
  the query as the call leaves it is returned beside the result.
\<close>

definition GetConversations ::
  "(ConversationQuery \<Rightarrow> error + Conversation list \<times> go_int) \<Rightarrow>
   (int \<Rightarrow> error + Message list) \<Rightarrow> ConversationQuery \<Rightarrow>
   ConversationQuery \<times> (error + GetConversationsResponse)" where
  "GetConversations repoList getByConversationID query0 =
     (let query = applyDefaults query0
      in case repoList query of
           Inl err \<Rightarrow> (query, Inl (Wrap ''failed to get conversations'' err))
         | Inr (conversations, total') \<Rightarrow>
             (case (if q_IncludeMessages query
                    then loadMessages getByConversationID conversations
                    else Inr conversations) of
                Inl err \<Rightarrow> (query, Inl err)
              | Inr conversations \<Rightarrow>
                  (let page = quo (q_Offset query) (q_Limit query) + 1;
                       hasMore = (q_Offset query + q_Limit query <s total')
                   in (query,
                       Inr \<lparr>r_Conversations = conversations, r_Total = total', r_Page = page,
                            r_PerPage = q_Limit query, r_HasMore = hasMore\<rparr>))))"

section \<open>Test doubles and sample inputs\<close>

text \<open>
  \<open>MockSMSProvider\<close> and \<open>MockEmailProvider\<close>: with \<open>shouldFail\<close> set, every call
  fails, with a provider error for the codes 500 and 429 and a plain error otherwise.
\<close>

definition mockFailure :: "int \<Rightarrow> string \<Rightarrow> error" where
  "mockFailure errorCode what =
     (if errorCode = 500 then ProviderError 500 ''Internal server error'' 0
      else if errorCode = 429 then ProviderError 429 ''Too many requests'' 30
      else Errorf what)"

definition MockProviders :: "bool \<Rightarrow> int \<Rightarrow> bool \<Rightarrow> int \<Rightarrow> Providers" where
  "MockProviders smsShouldFail smsErrorCode emailShouldFail emailErrorCode =
     \<lparr>p_SendSMS = (\<lambda>n from to body.
        if smsShouldFail then Some (mockFailure smsErrorCode ''mock SMS provider failure'')
        else None),
      p_SendMMS = (\<lambda>n from to body attachments.
        if smsShouldFail then Some (mockFailure smsErrorCode ''mock MMS provider failure'')
        else None),
      p_SendEmail = (\<lambda>n from to body attachments.
        if emailShouldFail then Some (mockFailure emailErrorCode ''mock email provider failure'')
        else None)\<rparr>"

text \<open>
  The requests and webhooks of the unit tests, stamped with the clock reading of the
  call, an environment without failures, and the empty database.
\<close>

definition testClock :: Clock where
  "testClock = \<lparr>clk_year = 2025, clk_month = 6, clk_day = 15, clk_nsOfDay = 0\<rparr>"

definition testEnv :: Env where
  "testEnv =
     \<lparr>validateNow = testClock, createdNow = nanos (Now testClock),
      updatedNow = nanos (Now testClock), dbNow = nanos (Now testClock),
      errGetByProviderMessageID = None, errGetByContacts = None,
      errCreateConversation = None, errCreateMessage = None\<rparr>"

definition emptyDB :: DB where
  "emptyDB = \<lparr>conversationRows = [], messageRows = [], conversationSeq = 1, messageSeq = 1\<rparr>"

definition testSMSRequest :: SendSMSRequest where
  "testSMSRequest =
     \<lparr>sms_From = ''+12016661234'', sms_To = ''+18045551234'', sms_Type = ''sms'',
      sms_Body = ''Hello! This is a test SMS message.'', sms_Attachments = [],
      sms_Timestamp = Now testClock\<rparr>"

definition testEmailRequest :: SendEmailRequest where
  "testEmailRequest =
     \<lparr>eml_From = ''user@usehatchapp.com'', eml_To = ''contact@gmail.com'',
      eml_Body = ''Hello! This is a test email message.'',
      eml_Attachments = [''https://example.com/document.pdf''],
      eml_Timestamp = Now testClock\<rparr>"

definition testInboundSMS :: InboundSMSWebhook where
  "testInboundSMS =
     \<lparr>isms_From = ''+18045551234'', isms_To = ''+12016661234'', isms_Type = ''sms'',
      isms_MessagingProviderID = ''message-1'',
      isms_Body = ''This is an incoming SMS message'', isms_Attachments = [],
      isms_Timestamp = Now testClock\<rparr>"

definition testInboundEmail :: InboundEmailWebhook where
  "testInboundEmail =
     \<lparr>ieml_From = ''contact@gmail.com'', ieml_To = ''user@usehatchapp.com'',
      ieml_XillioID = ''message-3'',
      ieml_Body = ''This is an incoming email'', ieml_Attachments = [],
      ieml_Timestamp = Now testClock\<rparr>"

section \<open>Properties of contact normalization\<close>

lemma sort_pair: "sort [a, b :: string] = (if a \<le> b then [a, b] else [b, a])"
  by simp

lemma Contains_ReplaceAll: "c \<noteq> old \<Longrightarrow> Contains (ReplaceAll s old) c = Contains s c"
  by (simp add: Contains_def ReplaceAll_def)

lemma Contains_stripFormatting_at:
  "Contains (stripFormatting s) CHR ''@'' = Contains s CHR ''@''"
  by (simp add: stripFormatting_def Contains_ReplaceAll)

lemma stripFormatting_filter:
  "stripFormatting s = filter (\<lambda>c. c \<notin> {CHR ''-'', CHR '' '', CHR ''('', CHR '')''}) s"
  by (induction s) (auto simp: stripFormatting_def ReplaceAll_def)

lemma cs_normalizeContacts_sorted:
  "cs_normalizeContacts a b =
     (min (stripFormatting a) (stripFormatting b), max (stripFormatting a) (stripFormatting b))"
  by (auto simp: cs_normalizeContacts_def stripFormatting_def Let_def min_def max_def)

lemma ms_normalizeContacts_emails:
  "Contains a CHR ''@'' \<Longrightarrow> Contains b CHR ''@'' \<Longrightarrow>
     ms_normalizeContacts a b = (min a b, max a b)"
  by (auto simp: ms_normalizeContacts_def min_def max_def)

lemma ms_normalizeContacts_phones:
  "\<not> (Contains a CHR ''@'' \<and> Contains b CHR ''@'') \<Longrightarrow>
     (ms_normalizeContacts a b = (a, b) \<or> ms_normalizeContacts a b = (b, a)) \<and>
     ReplaceAll (fst (ms_normalizeContacts a b)) CHR ''-''
       \<le> ReplaceAll (snd (ms_normalizeContacts a b)) CHR ''-''"
  by (auto simp: ms_normalizeContacts_def Let_def)

text \<open>
  C1. Claim: normalization strips \<open>-\<close>, space, \<open>(\<close> and \<open>)\<close> from both addresses;
  when both stripped addresses contain \<open>@\<close> it returns the two originals in ascending
  order, otherwise the two originals ordered by their stripped forms.

  The function on the persistence path strips only \<open>-\<close>: for the pair below it returns
  the addresses in the order given, although the stripped form of the second
  (\<open>+18045551234\<close>) is below the stripped form of the first (\<open>2016661234\<close>).
\<close>

theorem normalizeContacts_strip_counterexample:
  "\<not> (if Contains (stripFormatting ''(201) 666-1234'') CHR ''@'' \<and>
          Contains (stripFormatting ''+18045551234'') CHR ''@''
       then ms_normalizeContacts ''(201) 666-1234'' ''+18045551234''
              = (min ''(201) 666-1234'' ''+18045551234'', max ''(201) 666-1234'' ''+18045551234'')
       else (ms_normalizeContacts ''(201) 666-1234'' ''+18045551234''
               = (''(201) 666-1234'', ''+18045551234'') \<or>
             ms_normalizeContacts ''(201) 666-1234'' ''+18045551234''
               = (''+18045551234'', ''(201) 666-1234'')) \<and>
            stripFormatting (fst (ms_normalizeContacts ''(201) 666-1234'' ''+18045551234''))
              \<le> stripFormatting (snd (ms_normalizeContacts ''(201) 666-1234'' ''+18045551234'')))"
  by (simp add: ms_normalizeContacts_def stripFormatting_def Contains_def ReplaceAll_def)

text \<open>
  The other normalizer does strip the four characters, but returns the stripped forms,
  not the original addresses.
\<close>

lemma cs_normalizeContacts_returns_stripped:
  "cs_normalizeContacts ''(201) 666-1234'' ''+18045551234'' = (''+18045551234'', ''2016661234'')"
  by (simp add: cs_normalizeContacts_def Contains_def ReplaceAll_def)

text \<open>
  C1, amended. \<open>messagingService.normalizeContacts\<close> strips only \<open>-\<close>; when both
  stripped addresses contain \<open>@\<close> it returns the two original addresses in ascending
  order; otherwise it returns the two original addresses, the one whose \<open>-\<close>-stripped
  form is not above the other's first. \<open>conversationService.normalizeContacts\<close> strips
  all four characters and returns the two stripped forms in ascending order.
\<close>

theorem normalizeContacts_by_design:
  "(if Contains (ReplaceAll a CHR ''-'') CHR ''@'' \<and> Contains (ReplaceAll b CHR ''-'') CHR ''@''
    then ms_normalizeContacts a b = (min a b, max a b)
    else (ms_normalizeContacts a b = (a, b) \<or> ms_normalizeContacts a b = (b, a)) \<and>
         ReplaceAll (fst (ms_normalizeContacts a b)) CHR ''-''
           \<le> ReplaceAll (snd (ms_normalizeContacts a b)) CHR ''-'') \<and>
   cs_normalizeContacts a b =
     (min (stripFormatting a) (stripFormatting b), max (stripFormatting a) (stripFormatting b))"
proof -
  have at: "Contains (ReplaceAll s CHR ''-'') CHR ''@'' = Contains s CHR ''@''" for s
    by (simp add: Contains_ReplaceAll)
  show ?thesis
    using ms_normalizeContacts_emails [of a b] ms_normalizeContacts_phones [of a b]
    by (simp add: at cs_normalizeContacts_sorted)
qed

text \<open>
  C2. Claim: the normalizer of the persistence path and the one of the conversation
  query service return identical results on every pair of addresses.

  They differ as soon as an address carries a formatting character: the first returns
  the address as given, the second its stripped form.
\<close>

theorem normalizeContacts_equal_counterexample:
  "ms_normalizeContacts ''+1201-666-1234'' ''+18045551234''
     \<noteq> cs_normalizeContacts ''+1201-666-1234'' ''+18045551234''"
  by (simp add: ms_normalizeContacts_def cs_normalizeContacts_def Contains_def ReplaceAll_def)

lemma ReplaceAll_absent: "old \<notin> set s \<Longrightarrow> ReplaceAll s old = s"
  by (induction s) (auto simp: ReplaceAll_def)

lemma stripFormatting_unformatted:
  "set s \<inter> {CHR ''-'', CHR '' '', CHR ''('', CHR '')''} = {} \<Longrightarrow> stripFormatting s = s"
  by (simp add: stripFormatting_def ReplaceAll_absent)

text \<open>
  C2, amended. The two normalizers return identical results on every pair of addresses
  in which neither address contains \<open>-\<close>, space, \<open>(\<close> or \<open>)\<close>.
\<close>

theorem normalizeContacts_agree_unformatted:
  assumes "set a \<inter> {CHR ''-'', CHR '' '', CHR ''('', CHR '')''} = {}"
    and "set b \<inter> {CHR ''-'', CHR '' '', CHR ''('', CHR '')''} = {}"
  shows "ms_normalizeContacts a b = cs_normalizeContacts a b"
proof -
  have sa: "stripFormatting a = a" and sb: "stripFormatting b = b"
    using assms by (simp_all add: stripFormatting_unformatted)
  have da: "ReplaceAll a CHR ''-'' = a" and db: "ReplaceAll b CHR ''-'' = b"
    using assms by (simp_all add: ReplaceAll_absent)
  show ?thesis
  proof (cases "Contains a CHR ''@'' \<and> Contains b CHR ''@''")
    case True
    then show ?thesis
      by (simp add: ms_normalizeContacts_emails cs_normalizeContacts_sorted sa sb)
  next
    case False
    then have "ms_normalizeContacts a b = (if a < b then (a, b) else (b, a))"
      by (auto simp: ms_normalizeContacts_def Let_def da db)
    then show ?thesis
      by (auto simp: cs_normalizeContacts_sorted sa sb min_def max_def)
  qed
qed

theorem normalizeContacts_agree_unformatted_witness:
  "set ''+12016661234'' \<inter> {CHR ''-'', CHR '' '', CHR ''('', CHR '')''} = {} \<and>
   set ''+18045551234'' \<inter> {CHR ''-'', CHR '' '', CHR ''('', CHR '')''} = {} \<and>
   ms_normalizeContacts ''+12016661234'' ''+18045551234''
     = cs_normalizeContacts ''+12016661234'' ''+18045551234''"
  using normalizeContacts_agree_unformatted [of "''+12016661234''" "''+18045551234''"]
  by simp

text \<open>
  C3. Claim: \<open>normalize(a, b) = normalize(b, a)\<close> for all address pairs.

  On the persistence path the order is decided by \<open>cleanCustomer < cleanBusiness\<close> alone;
  two different addresses with the same \<open>-\<close>-stripped form come back in the order
  opposite to the one given, whichever is given first.
\<close>

theorem normalizeContacts_asymmetric_on_tie:
  "ms_normalizeContacts ''+1201-666-1234'' ''+12016661234''
     = (''+12016661234'', ''+1201-666-1234'') \<and>
   ms_normalizeContacts ''+12016661234'' ''+1201-666-1234''
     = (''+1201-666-1234'', ''+12016661234'')"
  by (simp add: ms_normalizeContacts_def Contains_def ReplaceAll_def)

text \<open>Away from such ties the function is symmetric, and the other normalizer always is.\<close>

lemma ms_normalizeContacts_symmetric:
  assumes "ReplaceAll a CHR ''-'' \<noteq> ReplaceAll b CHR ''-'' \<or>
           (Contains a CHR ''@'' \<and> Contains b CHR ''@'')"
  shows "ms_normalizeContacts a b = ms_normalizeContacts b a"
  using assms by (auto simp: ms_normalizeContacts_def Let_def)

lemma cs_normalizeContacts_symmetric:
  "cs_normalizeContacts a b = cs_normalizeContacts b a"
  by (simp add: cs_normalizeContacts_sorted min.commute max.commute)

section \<open>Properties of the retry engine\<close>

declare retryLoop.simps [simp del]

lemma IsRetryableError_iff:
  "IsRetryableError e \<longleftrightarrow>
     (\<exists>c m ra. e = ProviderError c m ra \<and> c \<in> {429, 500, 502, 503, 504})"
  by (cases e) (auto simp: IsRetryableError_def)

text \<open>One pass through the body of the loop, by the way it leaves the body.\<close>

lemma retryLoop_success_step:
  assumes "attempt \<le> MaxRetries cfg" and "operation n = None"
  shows "retryLoop ctx cfg operation attempt n ws = \<lparr>result = None, calls = Suc n, waits = ws\<rparr>"
  using assms by (subst retryLoop.simps) simp

lemma retryLoop_last_step:
  assumes "attempt = MaxRetries cfg" and "operation n = Some e"
  shows "retryLoop ctx cfg operation attempt n ws = \<lparr>result = Some e, calls = Suc n, waits = ws\<rparr>"
  using assms by (subst retryLoop.simps) simp

lemma retryLoop_not_retryable:
  assumes "attempt \<le> MaxRetries cfg" and "operation n = Some e" and "\<not> IsRetryableError e"
  shows "retryLoop ctx cfg operation attempt n ws = \<lparr>result = Some e, calls = Suc n, waits = ws\<rparr>"
  using assms by (subst retryLoop.simps) simp

lemma retryLoop_retry_step:
  assumes "attempt < MaxRetries cfg" and "operation n = Some e" and "IsRetryableError e"
    and "ctx (length ws) = None"
  shows "retryLoop ctx cfg operation attempt n ws =
         retryLoop ctx cfg operation (attempt + 1) (Suc n) (ws @ [backoffDelay cfg attempt e])"
  using assms by (subst retryLoop.simps) simp

lemma retryLoop_cancel_step:
  assumes "attempt < MaxRetries cfg" and "operation n = Some e" and "IsRetryableError e"
    and "ctx (length ws) = Some ctxErr"
  shows "retryLoop ctx cfg operation attempt n ws =
         \<lparr>result = Some ctxErr, calls = Suc n, waits = ws\<rparr>"
  using assms by (subst retryLoop.simps) simp

lemma retryLoop_out_of_attempts:
  assumes "MaxRetries cfg < attempt"
  shows "retryLoop ctx cfg operation attempt n ws =
         \<lparr>result = Some (Errorf ''max retries exceeded''), calls = n, waits = ws\<rparr>"
  using assms by (subst retryLoop.simps) simp

text \<open>
  From any point of the loop: \<open>m\<close> retryable failures and then a success, with attempts
  enough left, make \<open>m + 1\<close> further invocations and a success.
\<close>

lemma retryLoop_succeeds:
  assumes "\<forall>i. ctx i = None"
    and "\<forall>j<m. \<exists>e. operation (n + j) = Some e \<and> IsRetryableError e"
    and "operation (n + m) = None"
    and "attempt + int m \<le> MaxRetries cfg"
  shows "result (retryLoop ctx cfg operation attempt n ws) = None \<and>
         calls (retryLoop ctx cfg operation attempt n ws) = n + m + 1"
  using assms
proof (induction m arbitrary: attempt n ws)
  case 0
  then show ?case by (simp add: retryLoop_success_step)
next
  case (Suc m)
  from Suc.prems(2) obtain e where e: "operation n = Some e" "IsRetryableError e"
    by (metis add.right_neutral zero_less_Suc)
  have later: "\<forall>j<m. \<exists>e. operation (Suc n + j) = Some e \<and> IsRetryableError e"
    using Suc.prems(2) by (metis add_Suc_shift Suc_mono)
  have "result (retryLoop ctx cfg operation (attempt + 1) (Suc n)
                  (ws @ [backoffDelay cfg attempt e])) = None \<and>
        calls (retryLoop ctx cfg operation (attempt + 1) (Suc n)
                 (ws @ [backoffDelay cfg attempt e])) = Suc n + m + 1"
    using Suc.prems(1,3,4) later by (intro Suc.IH) auto
  moreover have "retryLoop ctx cfg operation attempt n ws =
      retryLoop ctx cfg operation (attempt + 1) (Suc n) (ws @ [backoffDelay cfg attempt e])"
    using e Suc.prems(1,4) by (intro retryLoop_retry_step) auto
  ultimately show ?case by simp
qed

text \<open>Retryable failures up to the last attempt make the loop return the last of them.\<close>

lemma retryLoop_exhausts:
  assumes "\<forall>i. ctx i = None"
    and "\<forall>j\<le>m. \<exists>e. operation (n + j) = Some e \<and> IsRetryableError e"
    and "attempt + int m = MaxRetries cfg"
  shows "result (retryLoop ctx cfg operation attempt n ws) = operation (n + m) \<and>
         calls (retryLoop ctx cfg operation attempt n ws) = n + m + 1"
  using assms
proof (induction m arbitrary: attempt n ws)
  case 0
  then obtain e where "operation n = Some e" "IsRetryableError e" by auto
  with 0 show ?case by (simp add: retryLoop_last_step)
next
  case (Suc m)
  from Suc.prems(2) obtain e where e: "operation n = Some e" "IsRetryableError e"
    by (metis add.right_neutral le0)
  have later: "\<forall>j\<le>m. \<exists>e. operation (Suc n + j) = Some e \<and> IsRetryableError e"
    using Suc.prems(2) by (metis add_Suc_shift Suc_le_mono)
  have "result (retryLoop ctx cfg operation (attempt + 1) (Suc n)
                  (ws @ [backoffDelay cfg attempt e])) = operation (Suc n + m) \<and>
        calls (retryLoop ctx cfg operation (attempt + 1) (Suc n)
                 (ws @ [backoffDelay cfg attempt e])) = Suc n + m + 1"
    using Suc.prems(1,3) later by (intro Suc.IH) auto
  moreover have "retryLoop ctx cfg operation attempt n ws =
      retryLoop ctx cfg operation (attempt + 1) (Suc n) (ws @ [backoffDelay cfg attempt e])"
    using e Suc.prems(1,3) by (intro retryLoop_retry_step) auto
  ultimately show ?case by simp
qed

text \<open>With a negative \<open>MaxRetries\<close> the operation is never invoked.\<close>

lemma retryWithBackoff_negative_MaxRetries:
  "MaxRetries cfg < 0 \<Longrightarrow>
     retryWithBackoff ctx cfg operation =
       \<lparr>result = Some (Errorf ''max retries exceeded''), calls = 0, waits = []\<rparr>"
  by (simp add: retryWithBackoff_def retryLoop_out_of_attempts)

text \<open>A context that is done during the first wait ends the run after one invocation.\<close>

lemma retryWithBackoff_cancelled:
  assumes "0 < MaxRetries cfg" and "operation 0 = Some e" and "IsRetryableError e"
    and "ctx 0 = Some ctxErr"
  shows "retryWithBackoff ctx cfg operation = \<lparr>result = Some ctxErr, calls = 1, waits = []\<rparr>"
  using assms by (simp add: retryWithBackoff_def retryLoop_cancel_step)

text \<open>
  C6. When the context is not cancelled during a wait and \<open>MaxRetries\<close> is not negative,
  \<open>retryWithBackoff\<close>
  \<^item> invokes the operation exactly \<open>k\<close> times and returns success when the operation
    fails with retryable codes and first succeeds on attempt \<open>k \<le> MaxRetries + 1\<close>;
  \<^item> invokes it exactly \<open>MaxRetries + 1\<close> times and returns the last error when every
    attempt fails with one of the codes 429, 500, 502, 503, 504;
  \<^item> invokes it exactly once and returns the error when the first attempt fails with a
    provider error of any other code.
\<close>

theorem retryWithBackoff_attempts:
  "((\<forall>i. ctx i = None) \<and> 1 \<le> k \<and> int k \<le> MaxRetries cfg + 1 \<and>
      (\<forall>i<k - 1. \<exists>c m ra. operation i = Some (ProviderError c m ra) \<and>
                            c \<in> {429, 500, 502, 503, 504}) \<and>
      operation (k - 1) = None
    \<longrightarrow> result (retryWithBackoff ctx cfg operation) = None \<and>
        calls (retryWithBackoff ctx cfg operation) = k) \<and>
   ((\<forall>i. ctx i = None) \<and> 0 \<le> MaxRetries cfg \<and>
      (\<forall>i\<le>nat (MaxRetries cfg). \<exists>c m ra. operation i = Some (ProviderError c m ra) \<and>
                            c \<in> {429, 500, 502, 503, 504})
    \<longrightarrow> calls (retryWithBackoff ctx cfg operation) = nat (MaxRetries cfg) + 1 \<and>
        result (retryWithBackoff ctx cfg operation) = operation (nat (MaxRetries cfg))) \<and>
   (0 \<le> MaxRetries cfg \<and> operation 0 = Some (ProviderError c' m' ra') \<and>
      c' \<notin> {429, 500, 502, 503, 504}
    \<longrightarrow> calls (retryWithBackoff ctx cfg operation) = 1 \<and>
        result (retryWithBackoff ctx cfg operation) = Some (ProviderError c' m' ra'))"
proof (intro conjI impI)
  assume a: "(\<forall>i. ctx i = None) \<and> 1 \<le> k \<and> int k \<le> MaxRetries cfg + 1 \<and>
      (\<forall>i<k - 1. \<exists>c m ra. operation i = Some (ProviderError c m ra) \<and>
                            c \<in> {429, 500, 502, 503, 504}) \<and>
      operation (k - 1) = None"
  then have fails: "\<forall>j<k - 1. \<exists>e. operation (0 + j) = Some e \<and> IsRetryableError e"
    by (fastforce simp: IsRetryableError_iff)
  have r: "result (retryLoop ctx cfg operation 0 0 []) = None \<and>
        calls (retryLoop ctx cfg operation 0 0 []) = 0 + (k - 1) + 1"
    using a fails by (intro retryLoop_succeeds) auto
  from r show "result (retryWithBackoff ctx cfg operation) = None"
    by (simp add: retryWithBackoff_def)
  from r a show "calls (retryWithBackoff ctx cfg operation) = k"
    by (simp add: retryWithBackoff_def)
next
  assume b: "(\<forall>i. ctx i = None) \<and> 0 \<le> MaxRetries cfg \<and>
      (\<forall>i\<le>nat (MaxRetries cfg). \<exists>c m ra. operation i = Some (ProviderError c m ra) \<and>
                            c \<in> {429, 500, 502, 503, 504})"
  then have fails:
    "\<forall>j\<le>nat (MaxRetries cfg). \<exists>e. operation (0 + j) = Some e \<and> IsRetryableError e"
    by (fastforce simp: IsRetryableError_iff)
  have r: "result (retryLoop ctx cfg operation 0 0 []) = operation (0 + nat (MaxRetries cfg)) \<and>
        calls (retryLoop ctx cfg operation 0 0 []) = 0 + nat (MaxRetries cfg) + 1"
    using b fails by (intro retryLoop_exhausts) auto
  from r show "calls (retryWithBackoff ctx cfg operation) = nat (MaxRetries cfg) + 1"
    by (simp add: retryWithBackoff_def)
  from r show "result (retryWithBackoff ctx cfg operation) = operation (nat (MaxRetries cfg))"
    by (simp add: retryWithBackoff_def)
next
  assume c: "0 \<le> MaxRetries cfg \<and> operation 0 = Some (ProviderError c' m' ra') \<and>
      c' \<notin> {429, 500, 502, 503, 504}"
  then have "\<not> IsRetryableError (ProviderError c' m' ra')"
    by (simp add: IsRetryableError_iff)
  with c have r: "retryLoop ctx cfg operation 0 0 [] =
      \<lparr>result = Some (ProviderError c' m' ra'), calls = Suc 0, waits = []\<rparr>"
    by (intro retryLoop_not_retryable) auto
  from r show "calls (retryWithBackoff ctx cfg operation) = 1"
    by (simp add: retryWithBackoff_def)
  from r show "result (retryWithBackoff ctx cfg operation) = Some (ProviderError c' m' ra')"
    by (simp add: retryWithBackoff_def)
qed

theorem retryWithBackoff_attempts_witness:
  "result (retryWithBackoff (\<lambda>_. None) DefaultRetryConfig
      (\<lambda>i. if i < 2 then Some (ProviderError 503 ''unavailable'' 0) else None)) = None \<and>
   calls (retryWithBackoff (\<lambda>_. None) DefaultRetryConfig
      (\<lambda>i. if i < 2 then Some (ProviderError 503 ''unavailable'' 0) else None)) = 3 \<and>
   calls (retryWithBackoff (\<lambda>_. None) DefaultRetryConfig
      (\<lambda>_. Some (ProviderError 500 ''Internal server error'' 0))) = 4 \<and>
   result (retryWithBackoff (\<lambda>_. None) DefaultRetryConfig
      (\<lambda>_. Some (ProviderError 500 ''Internal server error'' 0)))
     = Some (ProviderError 500 ''Internal server error'' 0) \<and>
   calls (retryWithBackoff (\<lambda>_. None) DefaultRetryConfig
      (\<lambda>_. Some (ProviderError 400 ''bad request'' 0))) = 1 \<and>
   result (retryWithBackoff (\<lambda>_. None) DefaultRetryConfig
      (\<lambda>_. Some (ProviderError 400 ''bad request'' 0)))
     = Some (ProviderError 400 ''bad request'' 0)"
  using
    retryWithBackoff_attempts [of "\<lambda>_. None" 3 DefaultRetryConfig
      "\<lambda>i. if i < 2 then Some (ProviderError 503 ''unavailable'' 0) else None"]
    retryWithBackoff_attempts [of "\<lambda>_. None" 1 DefaultRetryConfig
      "\<lambda>_. Some (ProviderError 500 ''Internal server error'' 0)"]
    retryWithBackoff_attempts [of "\<lambda>_. None" 1 DefaultRetryConfig
      "\<lambda>_. Some (ProviderError 400 ''bad request'' 0)" 400 "''bad request''" 0]
  by (simp add: DefaultRetryConfig_def)

text \<open>
  The waits of a run: there is one wait before each retry, and the wait after the
  failure of attempt \<open>j\<close> is the delay computed from that failure.
\<close>

lemma retryLoop_waits:
  assumes "attempt = int n" and "length ws = n" and "attempt \<le> MaxRetries cfg"
    and "\<forall>j<length ws. \<exists>e. operation j = Some e \<and> IsRetryableError e \<and>
                           ws ! j = backoffDelay cfg (int j) e"
  shows "length (waits (retryLoop ctx cfg operation attempt n ws)) + 1
           = calls (retryLoop ctx cfg operation attempt n ws) \<and>
         (\<forall>j<length (waits (retryLoop ctx cfg operation attempt n ws)).
            \<exists>e. operation j = Some e \<and> IsRetryableError e \<and>
                waits (retryLoop ctx cfg operation attempt n ws) ! j = backoffDelay cfg (int j) e)"
  using assms
proof (induction ctx cfg operation attempt n ws rule: retryLoop.induct)
  case (1 ctx cfg operation attempt n ws)
  show ?case
  proof (cases "operation n")
    case None
    with "1.prems" show ?thesis by (simp add: retryLoop_success_step)
  next
    case (Some err)
    show ?thesis
    proof (cases "IsRetryableError err \<and> attempt < MaxRetries cfg \<and> ctx (length ws) = None")
      case False
      then consider "\<not> IsRetryableError err" | "attempt = MaxRetries cfg"
        | ctxErr where "IsRetryableError err" "attempt < MaxRetries cfg" "ctx (length ws) = Some ctxErr"
        using "1.prems"(3) by fastforce
      then have "\<exists>r. retryLoop ctx cfg operation attempt n ws = \<lparr>result = r, calls = Suc n, waits = ws\<rparr>"
      proof cases
        case 1
        then show ?thesis using Some "1.prems"(3) by (simp add: retryLoop_not_retryable)
      next
        case 2
        then show ?thesis using Some by (simp add: retryLoop_last_step)
      next
        case 3
        then show ?thesis using Some by (simp add: retryLoop_cancel_step)
      qed
      with "1.prems" show ?thesis by auto
    next
      case True
      let ?ws = "ws @ [backoffDelay cfg attempt err]"
      have step: "retryLoop ctx cfg operation attempt n ws =
                  retryLoop ctx cfg operation (attempt + 1) (Suc n) ?ws"
        using True Some by (simp add: retryLoop_retry_step)
      have inv: "\<forall>j<length ?ws. \<exists>e. operation j = Some e \<and> IsRetryableError e \<and>
                     ?ws ! j = backoffDelay cfg (int j) e"
        using "1.prems" True Some by (auto simp: nth_append less_Suc_eq)
      have "length (waits (retryLoop ctx cfg operation (attempt + 1) (Suc n) ?ws)) + 1
              = calls (retryLoop ctx cfg operation (attempt + 1) (Suc n) ?ws) \<and>
            (\<forall>j<length (waits (retryLoop ctx cfg operation (attempt + 1) (Suc n) ?ws)).
               \<exists>e. operation j = Some e \<and> IsRetryableError e \<and>
                   waits (retryLoop ctx cfg operation (attempt + 1) (Suc n) ?ws) ! j
                     = backoffDelay cfg (int j) e)"
      proof (rule "1.IH" [OF _ Some _ _ refl])
        show "attempt \<le> MaxRetries cfg" using "1.prems" by simp
        show "\<not> \<not> IsRetryableError err" using True by simp
        show "attempt \<noteq> MaxRetries cfg" using True by simp
        show "ctx (length ws) = None" using True by simp
        show "attempt + 1 = int (Suc n)" using "1.prems" by simp
        show "length ?ws = Suc n" using "1.prems" by simp
        show "attempt + 1 \<le> MaxRetries cfg" using True by simp
        show "\<forall>j<length ?ws. \<exists>e. operation j = Some e \<and> IsRetryableError e \<and>
                     ?ws ! j = backoffDelay cfg (int j) e" by (rule inv)
      qed
      then show ?thesis unfolding step .
    qed
  qed
qed

lemma backoffDelay_ProviderError:
  "backoffDelay cfg (int j) (ProviderError c m ra) =
     (if c = 429 \<and> 0 <s ra
      then (if ra * Second <s MaxDelay cfg then ra * Second else MaxDelay cfg)
      else (if MaxDelay cfg <s BaseDelay cfg * 2 ^ j then MaxDelay cfg
            else BaseDelay cfg * 2 ^ j))"
  by (simp add: backoffDelay_def GetRetryAfterSeconds_def Let_def push_bit_of_1)

text \<open>
  The delay of every wait of a run, in the arithmetic of \<open>time.Duration\<close> (a 64-bit
  integer, products wrapping around): before invocation \<open>j + 1\<close> of the operation, after
  the failure \<open>e\<close> of attempt \<open>j\<close>, the delay is \<open>BaseDelay * 2 ^ j\<close> capped at
  \<open>MaxDelay\<close>, except that for code 429 with a positive retry-after it is the smaller of
  the retry-after in seconds and \<open>MaxDelay\<close>; on any other code the retry-after is not
  looked at.
\<close>

lemma retryWithBackoff_delays:
  assumes "Suc j < calls (retryWithBackoff ctx cfg operation)"
  shows "\<exists>c m ra. operation j = Some (ProviderError c m ra) \<and>
           c \<in> {429, 500, 502, 503, 504} \<and>
           j < length (waits (retryWithBackoff ctx cfg operation)) \<and>
           waits (retryWithBackoff ctx cfg operation) ! j =
             (if c = 429 \<and> 0 <s ra
              then (if ra * Second <s MaxDelay cfg then ra * Second else MaxDelay cfg)
              else (if MaxDelay cfg <s BaseDelay cfg * 2 ^ j then MaxDelay cfg
                    else BaseDelay cfg * 2 ^ j))"
proof (cases "0 \<le> MaxRetries cfg")
  case False
  then have "calls (retryWithBackoff ctx cfg operation) = 0"
    by (simp add: retryWithBackoff_def retryLoop_out_of_attempts)
  with assms show ?thesis by simp
next
  case True
  let ?run = "retryLoop ctx cfg operation 0 0 []"
  have inv: "length (waits ?run) + 1 = calls ?run \<and>
        (\<forall>j<length (waits ?run). \<exists>e. operation j = Some e \<and> IsRetryableError e \<and>
                waits ?run ! j = backoffDelay cfg (int j) e)"
    using True by (intro retryLoop_waits) auto
  with assms have j: "j < length (waits ?run)"
    by (simp add: retryWithBackoff_def)
  with inv obtain e where e: "operation j = Some e" "IsRetryableError e"
      "waits ?run ! j = backoffDelay cfg (int j) e"
    by blast
  from e(2) obtain c m ra where c: "e = ProviderError c m ra" "c \<in> {429, 500, 502, 503, 504}"
    by (auto simp: IsRetryableError_iff)
  show ?thesis
    using e(1,3) c j
    by (simp only: retryWithBackoff_def backoffDelay_ProviderError) blast
qed

lemma retryWithBackoff_delays_example:
  "Suc 1 < calls (retryWithBackoff (\<lambda>_. None) DefaultRetryConfig
      (\<lambda>i. if i = 0 then Some (ProviderError 500 ''Internal server error'' 30)
           else Some (ProviderError 429 ''Too many requests'' 30))) \<and>
   waits (retryWithBackoff (\<lambda>_. None) DefaultRetryConfig
      (\<lambda>i. if i = 0 then Some (ProviderError 500 ''Internal server error'' 30)
           else Some (ProviderError 429 ''Too many requests'' 30))) ! 0 = Second \<and>
   waits (retryWithBackoff (\<lambda>_. None) DefaultRetryConfig
      (\<lambda>i. if i = 0 then Some (ProviderError 500 ''Internal server error'' 30)
           else Some (ProviderError 429 ''Too many requests'' 30))) ! 1 = 30 * Second"
proof -
  let ?op = "\<lambda>i::nat. if i = 0 then Some (ProviderError 500 ''Internal server error'' 30)
           else Some (ProviderError 429 ''Too many requests'' 30)"
  have n: "Suc 1 < calls (retryWithBackoff (\<lambda>_. None) DefaultRetryConfig ?op)"
    by code_simp
  have s: "(30::64 word) * Second <s Minute" "\<not> Minute <s Second" "(0::64 word) <s 30"
    by (simp_all add: Second_def Minute_def word_sless_alt)
  show ?thesis
    using n retryWithBackoff_delays [OF n]
      retryWithBackoff_delays [of 0 "\<lambda>_. None" DefaultRetryConfig ?op]
    by (simp add: DefaultRetryConfig_def s)
qed

text \<open>
  As long as the products do not overflow, the delay is the integer the formula names.
\<close>

lemma sint_mult_no_overflow:
  fixes a b :: "64 word"
  assumes "- (2 ^ 63) \<le> sint a * sint b" and "sint a * sint b < 2 ^ 63"
  shows "sint (a * b) = sint a * sint b"
  using assms by (simp add: sint_word_ariths signed_take_bit_int_eq_self)

lemma sint_power2:
  assumes "j < 63"
  shows "sint ((2::64 word) ^ j) = 2 ^ j"
proof -
  have "(2::int) ^ j < 2 ^ 63"
    using assms by (intro power_strict_increasing) simp_all
  moreover have "- (2 ^ 63) \<le> (2::int) ^ j"
    by (rule order_trans [of _ 0]) simp_all
  moreover have "(2::64 word) ^ j = word_of_int (2 ^ j)"
    by simp
  ultimately show ?thesis
    by (simp only: sint_sbintrunc') (simp add: signed_take_bit_int_eq_self)
qed

lemma backoffDelay_exponential:
  assumes "j < 63" and "0 \<le> sint (BaseDelay cfg)" and "sint (BaseDelay cfg) * 2 ^ j < 2 ^ 63"
    and "\<not> 0 <s GetRetryAfterSeconds e"
  shows "sint (backoffDelay cfg (int j) e) = min (sint (BaseDelay cfg) * 2 ^ j) (sint (MaxDelay cfg))"
proof -
  have "- (2 ^ 63) \<le> sint (BaseDelay cfg) * sint ((2::64 word) ^ j)"
    using assms(1,2) by (simp add: sint_power2 order_trans [of _ 0])
  then have "sint (BaseDelay cfg * 2 ^ j) = sint (BaseDelay cfg) * 2 ^ j"
    using assms(1,3) sint_mult_no_overflow [of "BaseDelay cfg" "2 ^ j"]
    by (simp add: sint_power2)
  then show ?thesis
    using assms(4) by (simp add: backoffDelay_def Let_def word_sless_alt min_def)
qed

lemma backoffDelay_retry_after:
  assumes "0 < sint ra" and "sint ra * 1000000000 < 2 ^ 63"
  shows "sint (backoffDelay cfg attempt (ProviderError 429 m ra))
           = min (sint ra * 1000000000) (sint (MaxDelay cfg))"
proof -
  have s: "sint Second = 1000000000"
    by (simp add: Second_def)
  have "sint (ra * Second) = sint ra * 1000000000"
    using assms sint_mult_no_overflow [of ra Second] by (simp add: s)
  then show ?thesis
    using assms(1)
    by (simp add: backoffDelay_def GetRetryAfterSeconds_def Let_def word_sless_alt min_def)
qed

text \<open>
  C7. Claim: before each retry the delay waited is \<open>baseDelay * 2 ^ attempt\<close> capped at
  \<open>maxDelay\<close>, or \<open>min (retryAfterSeconds, maxDelay)\<close> for a 429 with a positive
  retry-after.

  The two products are computed in \<open>time.Duration\<close> and are not guarded against
  overflow. Under the default configuration a 429 with a retry-after of 9223372037
  seconds is retried once, after a wait of \<open>- 9223372036709551616\<close> nanoseconds (no
  wait at all) where the claim gives the 60 seconds of \<open>MaxDelay\<close>; and with
  \<open>MaxRetries\<close> 35 the wait after attempt 34 is \<open>- 1266874889709551616\<close> nanoseconds,
  again where the claim gives \<open>MaxDelay\<close>.
\<close>

theorem retryWithBackoff_delay_overflow:
  "map sint (waits (retryWithBackoff (\<lambda>_. None) DefaultRetryConfig
      (\<lambda>i. if i = 0 then Some (ProviderError 429 ''Too many requests'' 9223372037)
           else None)))
     = [- 9223372036709551616] \<and>
   calls (retryWithBackoff (\<lambda>_. None) DefaultRetryConfig
      (\<lambda>i. if i = 0 then Some (ProviderError 429 ''Too many requests'' 9223372037)
           else None)) = 2 \<and>
   min (9223372037 * 1000000000) (sint (MaxDelay DefaultRetryConfig)) = 60000000000 \<and>
   sint (waits (retryWithBackoff (\<lambda>_. None) (DefaultRetryConfig\<lparr>MaxRetries := 35\<rparr>)
      (\<lambda>_. Some (ProviderError 500 ''Internal server error'' 0))) ! 34)
     = - 1266874889709551616 \<and>
   min (sint (BaseDelay DefaultRetryConfig) * 2 ^ 34) (sint (MaxDelay DefaultRetryConfig))
     = 60000000000"
  by code_simp
section \<open>Properties of the timestamp policy\<close>

lemma five_minutes: "sint (5 * Minute) = 300000000000"
  by (simp add: Minute_def Second_def)

lemma daysSinceEpoch_ten_years: "daysSinceEpoch (y - 10) + 3650 \<le> daysSinceEpoch y"
proof -
  have a: "(y - 11) div 4 + 2 \<le> (y - 1) div 4"
  proof -
    have "(y - 11 + 2 * 4) div 4 \<le> (y - 1) div 4" by (rule zdiv_mono1) simp_all
    then show ?thesis by simp
  qed
  have b: "(y - 1) div 100 \<le> (y - 11) div 100 + 1"
  proof -
    have "(y - 1) div 100 \<le> (y - 11 + 100) div 100" by (rule zdiv_mono1) simp_all
    then show ?thesis by simp
  qed
  have c: "(y - 11) div 400 \<le> (y - 1) div 400" by (rule zdiv_mono1) simp_all
  show ?thesis
    using a b c by (simp add: daysSinceEpoch_def Let_def)
qed

lemma AddDate_ten_years_back: "nanos (AddDate clk (- 10)) \<le> nanos (Now clk)"
proof -
  have "daysSinceEpoch (clk_year clk - 10) + 3650 \<le> daysSinceEpoch (clk_year clk)"
    by (rule daysSinceEpoch_ten_years)
  then have "(daysSinceEpoch (clk_year clk - 10) + 1) * nsPerDay
               \<le> daysSinceEpoch (clk_year clk) * nsPerDay"
    by (simp add: nsPerDay_def)
  then show ?thesis
    by (simp add: AddDate_def Now_def Date_def Let_def algebra_simps nsPerDay_def)
qed

text \<open>
  The date ten years back keeps the month and the day; the 29th of February runs into
  the 1st of March.
\<close>

lemma AddDate_leap_day:
  "AddDate \<lparr>clk_year = 2024, clk_month = 2, clk_day = 29, clk_nsOfDay = 0\<rparr> (- 10)
     = Date 2014 3 1 0"
  by (simp add: AddDate_def Date_def daysSinceEpoch_def daysBefore_def isLeap_def)

text \<open>
  C8. \<open>validateTimestamp\<close> accepts a timestamp exactly when its location is UTC, it is
  not the zero time, it is at most 5 minutes after the clock reading, it is not before
  the same date and time of day ten years earlier, and it is not before
  2000-01-01T00:00:00Z. In particular the timestamp exactly 5 minutes ahead is accepted
  (the clock standing where that instant is not before 2000), and the one 5 minutes and
  1 second ahead is rejected.
\<close>

theorem validateTimestamp_policy:
  "(validateTimestamp clk ts = None \<longleftrightarrow>
      loc ts = UTC \<and> \<not> IsZero ts \<and>
      nanos ts \<le> nanos (Now clk) + 300000000000 \<and>
      nanos (AddDate clk (- 10)) \<le> nanos ts \<and>
      nanos (Date 2000 1 1 0) \<le> nanos ts) \<and>
   (nanos (Date 2000 1 1 0) \<le> nanos (Now clk) + 300000000000 \<longrightarrow>
      validateTimestamp clk \<lparr>nanos = nanos (Now clk) + 300000000000, loc = UTC\<rparr> = None) \<and>
   validateTimestamp clk \<lparr>nanos = nanos (Now clk) + 301000000000, loc = l\<rparr> \<noteq> None"
proof (intro conjI impI)
  show iff: "validateTimestamp clk ts = None \<longleftrightarrow>
      loc ts = UTC \<and> \<not> IsZero ts \<and>
      nanos ts \<le> nanos (Now clk) + 300000000000 \<and>
      nanos (AddDate clk (- 10)) \<le> nanos ts \<and>
      nanos (Date 2000 1 1 0) \<le> nanos ts" for ts
    by (auto simp: validateTimestamp_def Let_def After_def Before_def Add_def five_minutes)
  show "validateTimestamp clk \<lparr>nanos = nanos (Now clk) + 301000000000, loc = l\<rparr> \<noteq> None"
    by (simp add: iff)
  assume y: "nanos (Date 2000 1 1 0) \<le> nanos (Now clk) + 300000000000"
  have "0 < nanos (Date 2000 1 1 0)"
    by (simp add: Date_def daysSinceEpoch_def daysBefore_def isLeap_def nsPerDay_def)
  with y AddDate_ten_years_back [of clk]
  show "validateTimestamp clk \<lparr>nanos = nanos (Now clk) + 300000000000, loc = UTC\<rparr> = None"
    by (simp add: iff IsZero_def)
qed

theorem validateTimestamp_policy_witness:
  "nanos (Date 2000 1 1 0)
     \<le> nanos (Now \<lparr>clk_year = 2026, clk_month = 10, clk_day = 30, clk_nsOfDay = 0\<rparr>) + 300000000000 \<and>
   validateTimestamp \<lparr>clk_year = 2026, clk_month = 10, clk_day = 30, clk_nsOfDay = 0\<rparr>
     \<lparr>nanos = nanos (Now \<lparr>clk_year = 2026, clk_month = 10, clk_day = 30, clk_nsOfDay = 0\<rparr>)
               + 300000000000, loc = UTC\<rparr> = None \<and>
   validateTimestamp \<lparr>clk_year = 2026, clk_month = 10, clk_day = 30, clk_nsOfDay = 0\<rparr>
     \<lparr>nanos = nanos (Now \<lparr>clk_year = 2026, clk_month = 10, clk_day = 30, clk_nsOfDay = 0\<rparr>)
               + 301000000000, loc = UTC\<rparr> \<noteq> None"
proof -
  have y: "nanos (Date 2000 1 1 0)
     \<le> nanos (Now \<lparr>clk_year = 2026, clk_month = 10, clk_day = 30, clk_nsOfDay = 0\<rparr>) + 300000000000"
    by (simp add: Now_def Date_def daysSinceEpoch_def daysBefore_def isLeap_def nsPerDay_def)
  show ?thesis
    using y validateTimestamp_policy
      [of "\<lparr>clk_year = 2026, clk_month = 10, clk_day = 30, clk_nsOfDay = 0\<rparr>" _ UTC]
    by blast
qed

section \<open>Properties of the conversation query service\<close>

lemma quo_floor:
  assumes "0 \<le> sint a" and "0 < sint b"
  shows "quo a b = word_of_int (sint a div sint b)"
  using assms by (cases "sint a = 0") (simp_all add: quo_def signed_divide_int_def)

lemma applyDefaults_Limit:
  "q_Limit (applyDefaults q) = (if q_Limit q \<le>s 0 then 50 else q_Limit q)"
  by (simp add: applyDefaults_def Let_def)

lemma applyDefaults_Offset:
  "q_Offset (applyDefaults q) = (if q_Offset q <s 0 then 0 else q_Offset q)"
  by (simp add: applyDefaults_def Let_def)

lemma applyDefaults_SortBy:
  "q_SortBy (applyDefaults q) = (if q_SortBy q = '''' then ''updated_at'' else q_SortBy q)"
  by (simp add: applyDefaults_def Let_def)

lemma applyDefaults_SortOrder:
  "q_SortOrder (applyDefaults q) = (if q_SortOrder q = '''' then ''desc'' else q_SortOrder q)"
  by (simp add: applyDefaults_def Let_def)

lemma applyDefaults_Limit_positive: "0 < sint (q_Limit (applyDefaults q))"
  by (simp add: applyDefaults_Limit word_sle_eq)

lemma applyDefaults_Offset_nonnegative: "0 \<le> sint (q_Offset (applyDefaults q))"
  by (simp add: applyDefaults_Offset word_sless_alt)

lemma GetConversations_query:
  "fst (GetConversations repoList getByConversationID q) = applyDefaults q"
  by (simp add: GetConversations_def Let_def split: sum.splits prod.splits)

lemma GetConversations_response:
  assumes "snd (GetConversations repoList getByConversationID q) = Inr resp"
  shows "\<exists>convs. repoList (applyDefaults q) = Inr (convs, r_Total resp) \<and>
           r_PerPage resp = q_Limit (applyDefaults q) \<and>
           r_Page resp = quo (q_Offset (applyDefaults q)) (q_Limit (applyDefaults q)) + 1 \<and>
           r_HasMore resp
             = (q_Offset (applyDefaults q) + q_Limit (applyDefaults q) <s r_Total resp)"
proof (cases "repoList (applyDefaults q)")
  case (Inl err)
  with assms show ?thesis by (simp add: GetConversations_def Let_def)
next
  case (Inr p)
  obtain convs tot where p: "p = (convs, tot)" by (cases p)
  show ?thesis
  proof (cases "if q_IncludeMessages (applyDefaults q)
                then loadMessages getByConversationID convs else Inr convs")
    case (Inl err)
    with assms Inr p show ?thesis by (simp add: GetConversations_def Let_def)
  next
    case inner: (Inr convs')
    with assms Inr p show ?thesis by (auto simp: GetConversations_def Let_def)
  qed
qed


text \<open>
  The query listed and the response, in the arithmetic of Go's \<open>int\<close> (64 bits, the sum
  and the increment wrapping around): \<open>GetConversations\<close> leaves the query with limit 50
  where the limit was unset (zero, or negative), offset 0 where it was negative,
  \<open>sortBy\<close> \<open>updated_at\<close> and \<open>sortOrder\<close> \<open>desc\<close> where they were empty; that query is
  the one listed; and a response has \<open>perPage\<close> the effective limit, \<open>page\<close> the quotient
  of offset by limit plus one, and \<open>hasMore\<close> true exactly when offset plus limit is
  below the total.
\<close>

lemma GetConversations_defaults_and_paging:
  "q_Limit (fst (GetConversations repoList getByConversationID q))
     = (if q_Limit q \<le>s 0 then 50 else q_Limit q) \<and>
   q_Offset (fst (GetConversations repoList getByConversationID q))
     = (if q_Offset q <s 0 then 0 else q_Offset q) \<and>
   q_SortBy (fst (GetConversations repoList getByConversationID q))
     = (if q_SortBy q = '''' then ''updated_at'' else q_SortBy q) \<and>
   q_SortOrder (fst (GetConversations repoList getByConversationID q))
     = (if q_SortOrder q = '''' then ''desc'' else q_SortOrder q) \<and>
   (snd (GetConversations repoList getByConversationID q) = Inr resp \<longrightarrow>
      (\<exists>convs. repoList (fst (GetConversations repoList getByConversationID q))
                 = Inr (convs, r_Total resp)) \<and>
      r_PerPage resp = q_Limit (fst (GetConversations repoList getByConversationID q)) \<and>
      r_Page resp
        = word_of_int
            (sint (q_Offset (fst (GetConversations repoList getByConversationID q))) div
             sint (q_Limit (fst (GetConversations repoList getByConversationID q)))) + 1 \<and>
      r_HasMore resp
        = (q_Offset (fst (GetConversations repoList getByConversationID q)) +
           q_Limit (fst (GetConversations repoList getByConversationID q)) <s r_Total resp))"
proof -
  have page: "quo (q_Offset (applyDefaults q)) (q_Limit (applyDefaults q))
      = word_of_int (sint (q_Offset (applyDefaults q)) div sint (q_Limit (applyDefaults q)))"
    by (rule quo_floor) (rule applyDefaults_Offset_nonnegative applyDefaults_Limit_positive)+
  have fields:
    "q_Limit (applyDefaults q) = (if q_Limit q \<le>s 0 then 50 else q_Limit q)"
    "q_Offset (applyDefaults q) = (if q_Offset q <s 0 then 0 else q_Offset q)"
    "q_SortBy (applyDefaults q) = (if q_SortBy q = '''' then ''updated_at'' else q_SortBy q)"
    "q_SortOrder (applyDefaults q) = (if q_SortOrder q = '''' then ''desc'' else q_SortOrder q)"
    by (rule applyDefaults_Limit applyDefaults_Offset applyDefaults_SortBy
        applyDefaults_SortOrder)+
  have resp: "snd (GetConversations repoList getByConversationID q) = Inr resp \<longrightarrow>
      (\<exists>convs. repoList (applyDefaults q) = Inr (convs, r_Total resp)) \<and>
      r_PerPage resp = q_Limit (applyDefaults q) \<and>
      r_Page resp
        = word_of_int (sint (q_Offset (applyDefaults q)) div sint (q_Limit (applyDefaults q))) + 1 \<and>
      r_HasMore resp = (q_Offset (applyDefaults q) + q_Limit (applyDefaults q) <s r_Total resp)"
    using GetConversations_response [of repoList getByConversationID q resp]
    unfolding page by blast
  show ?thesis
    unfolding GetConversations_query using fields resp by blast
qed

lemma GetConversations_defaults_and_paging_example:
  "snd (GetConversations (\<lambda>_. Inr ([], 2)) (\<lambda>_. Inr [])
         \<lparr>q_BusinessEmail = '''', q_BusinessPhone = '''', q_Search = '''',
          q_From = zeroTime, q_To = zeroTime, q_MessageType = '''',
          q_Limit = 1, q_Offset = 0, q_SortBy = '''', q_SortOrder = '''',
          q_IncludeMessages = False\<rparr>)
     = Inr \<lparr>r_Conversations = [], r_Total = 2, r_Page = 1, r_PerPage = 1, r_HasMore = True\<rparr> \<and>
   q_SortBy (fst (GetConversations (\<lambda>_. Inr ([], 2)) (\<lambda>_. Inr [])
         \<lparr>q_BusinessEmail = '''', q_BusinessPhone = '''', q_Search = '''',
          q_From = zeroTime, q_To = zeroTime, q_MessageType = '''',
          q_Limit = 1, q_Offset = 0, q_SortBy = '''', q_SortOrder = '''',
          q_IncludeMessages = False\<rparr>)) = ''updated_at'' \<and>
   q_SortOrder (fst (GetConversations (\<lambda>_. Inr ([], 2)) (\<lambda>_. Inr [])
         \<lparr>q_BusinessEmail = '''', q_BusinessPhone = '''', q_Search = '''',
          q_From = zeroTime, q_To = zeroTime, q_MessageType = '''',
          q_Limit = 1, q_Offset = 0, q_SortBy = '''', q_SortOrder = '''',
          q_IncludeMessages = False\<rparr>)) = ''desc''"
proof -
  let ?q = "\<lparr>q_BusinessEmail = '''', q_BusinessPhone = '''', q_Search = '''',
          q_From = zeroTime, q_To = zeroTime, q_MessageType = '''',
          q_Limit = 1, q_Offset = 0, q_SortBy = '''', q_SortOrder = '''',
          q_IncludeMessages = False\<rparr>"
  let ?resp = "\<lparr>r_Conversations = [], r_Total = 2, r_Page = 1, r_PerPage = 1, r_HasMore = True\<rparr>"
  have run: "snd (GetConversations (\<lambda>_. Inr ([], 2)) (\<lambda>_. Inr []) ?q) = Inr ?resp"
    by (simp add: GetConversations_def applyDefaults_def quo_def Let_def word_sle_eq
        word_sless_alt)
  show ?thesis
    using run GetConversations_defaults_and_paging
      [of "\<lambda>_. Inr ([], 2)" "\<lambda>_. Inr []" ?q ?resp]
    by simp
qed

text \<open>The unbounded-integer reading, when neither the sum nor the page number overflows.\<close>

lemma sint_add_no_overflow:
  fixes a b :: "64 word"
  assumes "- (2 ^ 63) \<le> sint a + sint b" and "sint a + sint b < 2 ^ 63"
  shows "sint (a + b) = sint a + sint b"
  using assms by (simp add: sint_word_ariths signed_take_bit_int_eq_self)

lemma GetConversations_paging_integers:
  assumes "snd (GetConversations repoList getByConversationID q) = Inr resp"
    and "sint (q_Offset (applyDefaults q)) + sint (q_Limit (applyDefaults q)) < 2 ^ 63"
  shows "sint (r_Page resp)
           = sint (q_Offset (applyDefaults q)) div sint (q_Limit (applyDefaults q)) + 1"
    and "r_HasMore resp \<longleftrightarrow>
           sint (q_Offset (applyDefaults q)) + sint (q_Limit (applyDefaults q))
             < sint (r_Total resp)"
proof -
  let ?o = "sint (q_Offset (applyDefaults q))" and ?l = "sint (q_Limit (applyDefaults q))"
  have o: "0 \<le> ?o" and l: "0 < ?l"
    by (rule applyDefaults_Offset_nonnegative applyDefaults_Limit_positive)+
  have resp: "r_Page resp = word_of_int (?o div ?l) + 1"
    "r_HasMore resp = (q_Offset (applyDefaults q) + q_Limit (applyDefaults q) <s r_Total resp)"
    using GetConversations_response [OF assms(1)] quo_floor [OF o l] by auto
  have d: "0 \<le> ?o div ?l" "?o div ?l \<le> ?o"
    using o l zdiv_mono2 [of ?o 1 ?l] by (simp_all add: pos_imp_zdiv_nonneg_iff)
  have q: "sint (word_of_int (?o div ?l) :: 64 word) = ?o div ?l"
    using d assms(2) l by (simp add: sint_sbintrunc' signed_take_bit_int_eq_self)
  have "sint (word_of_int (?o div ?l) + 1 :: 64 word) = ?o div ?l + 1"
    using sint_add_no_overflow [of "word_of_int (?o div ?l)" 1] d assms(2) l
    by (simp add: q)
  then show "sint (r_Page resp) = ?o div ?l + 1" by (simp add: resp)
  have "sint (q_Offset (applyDefaults q) + q_Limit (applyDefaults q)) = ?o + ?l"
    using o l assms(2) by (intro sint_add_no_overflow) simp_all
  then show "r_HasMore resp \<longleftrightarrow> ?o + ?l < sint (r_Total resp)"
    by (simp add: resp word_sless_alt)
qed

text \<open>
  C9. Claim: \<open>GetConversations\<close> applies the defaults to the unset fields, and the
  response has \<open>page = floor (offset / limit) + 1\<close>, \<open>hasMore = (offset + limit < total)\<close>
  and \<open>perPage\<close> the effective limit.

  The defaults and \<open>perPage\<close> are as claimed. The sum \<open>offset + limit\<close> and the increment
  of the quotient are not guarded against overflow: for limit 1 and offset
  9223372036854775807 (the handler caps the limit, not the offset) on a store of two
  matching conversations, the response has \<open>page\<close> \<open>- 9223372036854775808\<close> and
  \<open>hasMore\<close> true, where the claim gives page 9223372036854775808 and, as
  9223372036854775808 is not below 2, \<open>hasMore\<close> false.
\<close>

theorem GetConversations_paging_overflow:
  "snd (GetConversations (\<lambda>_. Inr ([], 2)) (\<lambda>_. Inr [])
         \<lparr>q_BusinessEmail = '''', q_BusinessPhone = '''', q_Search = '''',
          q_From = zeroTime, q_To = zeroTime, q_MessageType = '''',
          q_Limit = 1, q_Offset = 9223372036854775807, q_SortBy = '''', q_SortOrder = '''',
          q_IncludeMessages = False\<rparr>)
     = Inr \<lparr>r_Conversations = [], r_Total = 2, r_Page = word_of_int (- 9223372036854775808),
            r_PerPage = 1, r_HasMore = True\<rparr> \<and>
   sint (word_of_int (- 9223372036854775808) :: go_int) = - 9223372036854775808 \<and>
   (9223372036854775807::int) div 1 + 1 = 9223372036854775808 \<and>
   \<not> ((9223372036854775807::int) + 1 < 2)"
  by (simp add: GetConversations_def applyDefaults_def quo_def Let_def word_sle_eq
      word_sless_alt)
section \<open>Properties of persistence\<close>

text \<open>What the repositories and \<open>createMessageRecord\<close> do to the two tables.\<close>

lemma GetByContacts_None_unique:
  assumes "GetByContacts env db c b = Inr None"
  shows "\<not> (\<exists>x \<in> set (conversationRows db). c_CustomerContact x = c \<and> c_BusinessContact x = b)"
proof
  assume "\<exists>x \<in> set (conversationRows db). c_CustomerContact x = c \<and> c_BusinessContact x = b"
  then obtain x where "x \<in> set (conversationRows db)" "c_CustomerContact x = c \<and> c_BusinessContact x = b"
    by blast
  then have "filter (\<lambda>x. (c_CustomerContact x = c \<and> c_BusinessContact x = b) \<or>
                        (c_CustomerContact x = b \<and> c_BusinessContact x = c))
               (conversationRows db) \<noteq> []"
    by (auto simp: filter_empty_conv)
  with assms show False
    by (auto simp: GetByContacts_def split: option.splits list.splits)
qed

lemma GetOrCreate_rows:
  assumes "GetOrCreate env db c b = (r, db')"
  shows "messageRows db' = messageRows db \<and> messageSeq db' = messageSeq db \<and>
         (conversationRows db' = conversationRows db \<or>
          (\<exists>conv. r = Inr conv \<and> conversationRows db' = conversationRows db @ [conv]))"
  using assms
  by (auto simp: GetOrCreate_def CreateConversation_def Let_def
      split: sum.splits option.splits if_splits)

lemma GetOrCreate_error_rows:
  assumes "GetOrCreate env db c b = (Inl e, db')"
  shows "conversationRows db' = conversationRows db"
  using GetOrCreate_rows [OF assms] by auto

lemma GetOrCreate_succeeds:
  assumes "errGetByContacts env = None" and "errCreateConversation env = None"
  shows "\<exists>conv db'. GetOrCreate env db c b = (Inr conv, db')"
proof (cases "GetByContacts env db c b")
  case (Inl e)
  with assms show ?thesis by (simp add: GetByContacts_def split: list.splits)
next
  case (Inr found)
  show ?thesis
  proof (cases found)
    case (Some conv)
    with Inr show ?thesis by (simp add: GetOrCreate_def)
  next
    case None
    with Inr GetByContacts_None_unique [of env db c b] assms show ?thesis
      by (simp add: GetOrCreate_def CreateConversation_def Let_def)
  qed
qed

lemma createMessageRecord_rows:
  assumes "createMessageRecord env db m = (r, db')"
  shows "(conversationRows db' = conversationRows db \<or>
          (\<exists>c. conversationRows db' = conversationRows db @ [c])) \<and>
         (case r of
            None \<Rightarrow> \<exists>m'. messageRows db' = messageRows db @ [m'] \<and>
                         m_MessagingProviderID m' = m_MessagingProviderID m \<and>
                         m_Status m' = m_Status m
          | Some e \<Rightarrow> messageRows db' = messageRows db)"
proof -
  obtain c b where n: "ms_normalizeContacts (m_From m) (m_To m) = (c, b)"
    by (cases "ms_normalizeContacts (m_From m) (m_To m)")
  obtain g db1 where g: "GetOrCreate env db c b = (g, db1)"
    by (cases "GetOrCreate env db c b")
  note rows = GetOrCreate_rows [OF g]
  show ?thesis
  proof (cases g)
    case (Inl e)
    with assms n g rows show ?thesis by (auto simp: createMessageRecord_def)
  next
    case (Inr conv)
    with assms n g rows show ?thesis
      by (auto simp: createMessageRecord_def CreateMessage_def split: option.splits)
  qed
qed

lemma createMessageRecord_appends:
  assumes "createMessageRecord env db m = (None, db')"
  shows "(conversationRows db' = conversationRows db \<or>
          (\<exists>c. conversationRows db' = conversationRows db @ [c])) \<and>
         (\<exists>m'. messageRows db' = messageRows db @ [m'] \<and>
               m_MessagingProviderID m' = m_MessagingProviderID m \<and> m_Status m' = m_Status m)"
  using createMessageRecord_rows [OF assms] by simp

lemma createMessageRecord_succeeds:
  assumes "errGetByContacts env = None" and "errCreateConversation env = None"
    and "errCreateMessage env = None"
  shows "\<exists>db'. createMessageRecord env db m = (None, db')"
proof -
  obtain c b where n: "ms_normalizeContacts (m_From m) (m_To m) = (c, b)"
    by (cases "ms_normalizeContacts (m_From m) (m_To m)")
  from GetOrCreate_succeeds [OF assms(1,2)]
  obtain conv db1 where "GetOrCreate env db c b = (Inr conv, db1)" by blast
  with n assms(3) show ?thesis
    by (simp add: createMessageRecord_def CreateMessage_def)
qed

text \<open>The outbound operations, by the step at which they return.\<close>

lemma SendSMS_validation_fails:
  assumes "validateSMSRequest (validateNow env) req = Some e"
  shows "SendSMS ctx cfg providers env req db = (Some (Wrap ''invalid SMS request'' e), db)"
  using assms by (simp add: SendSMS_def)

lemma SendSMS_provider_fails:
  assumes "result (sendSMSMessageWithRetry ctx cfg providers r) = Some e"
  shows "\<exists>e'. SendSMS ctx cfg providers env (Some r) db = (Some e', db)"
  using assms by (cases "validateSMSRequest (validateNow env) (Some r)") (simp_all add: SendSMS_def)

lemma SendSMS_success_rows:
  assumes "SendSMS ctx cfg providers env req db = (None, db')"
  shows "(\<exists>m. messageRows db' = messageRows db @ [m] \<and> m_Status m = ''pending'') \<and>
         (conversationRows db' = conversationRows db \<or>
          (\<exists>c. conversationRows db' = conversationRows db @ [c]))"
proof (cases req)
  case None
  with assms show ?thesis by (simp add: SendSMS_def split: option.splits)
next
  case (Some r)
  let ?m = "buildOutboundMessage (sms_From r) (sms_To r) (sms_Type r) (sms_Body r)
              (sms_Attachments r) (sms_Timestamp r)"
  obtain res db1 where c: "createMessageRecord env db ?m = (res, db1)"
    by (cases "createMessageRecord env db ?m")
  from assms Some c have "res = None" "db1 = db'"
    by (auto simp: SendSMS_def Let_def split: option.splits)
  with c have "createMessageRecord env db ?m = (None, db')" by simp
  from createMessageRecord_appends [OF this] show ?thesis
    by (auto simp: buildOutboundMessage_def Let_def)
qed

lemma SendEmail_validation_fails:
  assumes "validateEmailRequest (validateNow env) req = Some e"
  shows "SendEmail ctx cfg providers env req db = (Some (Wrap ''invalid email request'' e), db)"
  using assms by (simp add: SendEmail_def)

lemma SendEmail_provider_fails:
  assumes "result (sendEmailMessageWithRetry ctx cfg providers r) = Some e"
  shows "\<exists>e'. SendEmail ctx cfg providers env (Some r) db = (Some e', db)"
  using assms
  by (cases "validateEmailRequest (validateNow env) (Some r)") (simp_all add: SendEmail_def)

lemma SendEmail_success_rows:
  assumes "SendEmail ctx cfg providers env req db = (None, db')"
  shows "(\<exists>m. messageRows db' = messageRows db @ [m] \<and> m_Status m = ''pending'') \<and>
         (conversationRows db' = conversationRows db \<or>
          (\<exists>c. conversationRows db' = conversationRows db @ [c]))"
proof (cases req)
  case None
  with assms show ?thesis by (simp add: SendEmail_def split: option.splits)
next
  case (Some r)
  let ?m = "buildOutboundMessage (eml_From r) (eml_To r) MessageTypeEmail (eml_Body r)
              (eml_Attachments r) (eml_Timestamp r)"
  obtain res db1 where c: "createMessageRecord env db ?m = (res, db1)"
    by (cases "createMessageRecord env db ?m")
  from assms Some c have "res = None" "db1 = db'"
    by (auto simp: SendEmail_def Let_def split: option.splits)
  with c have "createMessageRecord env db ?m = (None, db')" by simp
  from createMessageRecord_appends [OF this] show ?thesis
    by (auto simp: buildOutboundMessage_def Let_def)
qed

text \<open>
  A send whose provider call succeeded can still fail while recording: the conversation
  row is then kept although the call returns an error.
\<close>

lemma SendSMS_recording_fails:
  "SendSMS (\<lambda>_. None) TestRetryConfig (MockProviders False 0 False 0)
     (testEnv\<lparr>errCreateMessage := Some (Errorf ''connection lost'')\<rparr>) (Some testSMSRequest) emptyDB
   = (Some (Wrap ''failed to create message''
             (Wrap ''failed to create message'' (Errorf ''connection lost''))),
      \<lparr>conversationRows =
         [\<lparr>c_ID = 1, c_CustomerContact = ''+12016661234'', c_BusinessContact = ''+18045551234'',
           c_CreatedAt = Now testClock, c_UpdatedAt = Now testClock, c_Messages = []\<rparr>],
       messageRows = [], conversationSeq = 2, messageSeq = 1\<rparr>)"
  by code_simp


text \<open>
  C5. \<open>SendSMS\<close> and \<open>SendEmail\<close>: when validation fails, or the provider call run
  through the retry engine ends in an error, the call returns an error and leaves the
  database as it was, no message row and no conversation row added; a call that returns
  success has added exactly one message row, of status \<open>pending\<close>, and at most one
  conversation row.
\<close>

theorem outbound_send_persistence:
  "((validateSMSRequest (validateNow env) req \<noteq> None \<or>
     (\<exists>r. req = Some r \<and> result (sendSMSMessageWithRetry ctx cfg providers r) \<noteq> None))
    \<longrightarrow> (\<exists>e. SendSMS ctx cfg providers env req db = (Some e, db))) \<and>
   (SendSMS ctx cfg providers env req db = (None, db')
    \<longrightarrow> (\<exists>m. messageRows db' = messageRows db @ [m] \<and> m_Status m = ''pending'') \<and>
        (conversationRows db' = conversationRows db \<or>
         (\<exists>c. conversationRows db' = conversationRows db @ [c]))) \<and>
   ((validateEmailRequest (validateNow env) ereq \<noteq> None \<or>
     (\<exists>r. ereq = Some r \<and> result (sendEmailMessageWithRetry ctx cfg providers r) \<noteq> None))
    \<longrightarrow> (\<exists>e. SendEmail ctx cfg providers env ereq db = (Some e, db))) \<and>
   (SendEmail ctx cfg providers env ereq db = (None, db')
    \<longrightarrow> (\<exists>m. messageRows db' = messageRows db @ [m] \<and> m_Status m = ''pending'') \<and>
        (conversationRows db' = conversationRows db \<or>
         (\<exists>c. conversationRows db' = conversationRows db @ [c])))"
proof (intro conjI impI)
  assume "validateSMSRequest (validateNow env) req \<noteq> None \<or>
     (\<exists>r. req = Some r \<and> result (sendSMSMessageWithRetry ctx cfg providers r) \<noteq> None)"
  then show "\<exists>e. SendSMS ctx cfg providers env req db = (Some e, db)"
    using SendSMS_validation_fails [of env req _ ctx cfg providers db]
      SendSMS_provider_fails [of ctx cfg providers _ _ env db]
    by auto
next
  assume "validateEmailRequest (validateNow env) ereq \<noteq> None \<or>
     (\<exists>r. ereq = Some r \<and> result (sendEmailMessageWithRetry ctx cfg providers r) \<noteq> None)"
  then show "\<exists>e. SendEmail ctx cfg providers env ereq db = (Some e, db)"
    using SendEmail_validation_fails [of env ereq _ ctx cfg providers db]
      SendEmail_provider_fails [of ctx cfg providers _ _ env db]
    by auto
next
  assume s: "SendSMS ctx cfg providers env req db = (None, db')"
  from SendSMS_success_rows [OF s]
  show "\<exists>m. messageRows db' = messageRows db @ [m] \<and> m_Status m = ''pending''"
    and "conversationRows db' = conversationRows db \<or>
         (\<exists>c. conversationRows db' = conversationRows db @ [c])"
    by simp_all
next
  assume s: "SendEmail ctx cfg providers env ereq db = (None, db')"
  from SendEmail_success_rows [OF s]
  show "\<exists>m. messageRows db' = messageRows db @ [m] \<and> m_Status m = ''pending''"
    and "conversationRows db' = conversationRows db \<or>
         (\<exists>c. conversationRows db' = conversationRows db @ [c])"
    by simp_all
qed


theorem outbound_send_persistence_witness:
  "validateSMSRequest (validateNow testEnv) (Some (testSMSRequest\<lparr>sms_Body := '' ''\<rparr>)) \<noteq> None \<and>
   (\<exists>e. SendSMS (\<lambda>_. None) TestRetryConfig (MockProviders False 0 False 0) testEnv
          (Some (testSMSRequest\<lparr>sms_Body := '' ''\<rparr>)) emptyDB = (Some e, emptyDB)) \<and>
   result (sendSMSMessageWithRetry (\<lambda>_. None) TestRetryConfig (MockProviders True 500 False 0)
             testSMSRequest) \<noteq> None \<and>
   (\<exists>e. SendSMS (\<lambda>_. None) TestRetryConfig (MockProviders True 500 False 0) testEnv
          (Some testSMSRequest) emptyDB = (Some e, emptyDB)) \<and>
   fst (SendSMS (\<lambda>_. None) TestRetryConfig (MockProviders False 0 False 0) testEnv
          (Some testSMSRequest) emptyDB) = None \<and>
   (\<exists>m. messageRows (snd (SendSMS (\<lambda>_. None) TestRetryConfig (MockProviders False 0 False 0)
                             testEnv (Some testSMSRequest) emptyDB))
          = messageRows emptyDB @ [m] \<and> m_Status m = ''pending'') \<and>
   result (sendEmailMessageWithRetry (\<lambda>_. None) TestRetryConfig (MockProviders False 0 True 429)
             testEmailRequest) \<noteq> None \<and>
   (\<exists>e. SendEmail (\<lambda>_. None) TestRetryConfig (MockProviders False 0 True 429) testEnv
          (Some testEmailRequest) emptyDB = (Some e, emptyDB)) \<and>
   fst (SendEmail (\<lambda>_. None) TestRetryConfig (MockProviders False 0 False 0) testEnv
          (Some testEmailRequest) emptyDB) = None \<and>
   (\<exists>m. messageRows (snd (SendEmail (\<lambda>_. None) TestRetryConfig (MockProviders False 0 False 0)
                             testEnv (Some testEmailRequest) emptyDB))
          = messageRows emptyDB @ [m] \<and> m_Status m = ''pending'')"
proof -
  let ?ok = "MockProviders False 0 False 0"
  have invalid:
    "validateSMSRequest (validateNow testEnv) (Some (testSMSRequest\<lparr>sms_Body := '' ''\<rparr>)) \<noteq> None"
    by code_simp
  have sms_fails:
    "result (sendSMSMessageWithRetry (\<lambda>_. None) TestRetryConfig (MockProviders True 500 False 0)
               testSMSRequest) \<noteq> None"
    by code_simp
  have email_fails:
    "result (sendEmailMessageWithRetry (\<lambda>_. None) TestRetryConfig (MockProviders False 0 True 429)
               testEmailRequest) \<noteq> None"
    by code_simp
  have sms_ok: "fst (SendSMS (\<lambda>_. None) TestRetryConfig ?ok testEnv (Some testSMSRequest) emptyDB)
                  = None"
    by code_simp
  have email_ok:
    "fst (SendEmail (\<lambda>_. None) TestRetryConfig ?ok testEnv (Some testEmailRequest) emptyDB) = None"
    by code_simp
  from sms_ok have sms_run:
    "SendSMS (\<lambda>_. None) TestRetryConfig ?ok testEnv (Some testSMSRequest) emptyDB
       = (None, snd (SendSMS (\<lambda>_. None) TestRetryConfig ?ok testEnv (Some testSMSRequest) emptyDB))"
    by (simp add: prod_eq_iff)
  from email_ok have email_run:
    "SendEmail (\<lambda>_. None) TestRetryConfig ?ok testEnv (Some testEmailRequest) emptyDB
       = (None,
          snd (SendEmail (\<lambda>_. None) TestRetryConfig ?ok testEnv (Some testEmailRequest) emptyDB))"
    by (simp add: prod_eq_iff)
  have c1: "\<exists>e. SendSMS (\<lambda>_. None) TestRetryConfig ?ok testEnv
          (Some (testSMSRequest\<lparr>sms_Body := '' ''\<rparr>)) emptyDB = (Some e, emptyDB)"
    using invalid
    by (intro outbound_send_persistence [THEN conjunct1, rule_format]) (rule disjI1)
  have c2: "\<exists>e. SendSMS (\<lambda>_. None) TestRetryConfig (MockProviders True 500 False 0) testEnv
          (Some testSMSRequest) emptyDB = (Some e, emptyDB)"
    using sms_fails
    by (intro outbound_send_persistence [THEN conjunct1, rule_format]) (rule disjI2, simp)
  have c3: "\<exists>m. messageRows (snd (SendSMS (\<lambda>_. None) TestRetryConfig ?ok testEnv
                                  (Some testSMSRequest) emptyDB))
          = messageRows emptyDB @ [m] \<and> m_Status m = ''pending''"
    by (rule outbound_send_persistence [THEN conjunct2, THEN conjunct1, rule_format,
          OF sms_run, THEN conjunct1])
  have c4: "\<exists>e. SendEmail (\<lambda>_. None) TestRetryConfig (MockProviders False 0 True 429) testEnv
          (Some testEmailRequest) emptyDB = (Some e, emptyDB)"
    using email_fails
    by (intro outbound_send_persistence [THEN conjunct2, THEN conjunct2, THEN conjunct1,
          rule_format]) (rule disjI2, simp)
  have c5: "\<exists>m. messageRows (snd (SendEmail (\<lambda>_. None) TestRetryConfig ?ok testEnv
                                  (Some testEmailRequest) emptyDB))
          = messageRows emptyDB @ [m] \<and> m_Status m = ''pending''"
    by (rule outbound_send_persistence [THEN conjunct2, THEN conjunct2, THEN conjunct2,
          rule_format, OF email_run, THEN conjunct1])
  show ?thesis
    by (intro conjI invalid c1 sms_fails c2 sms_ok c3 email_fails c4 email_ok c5)
qed

section \<open>Properties of inbound ingestion\<close>

text \<open>The lookup by provider message identifier.\<close>

lemma GetByProviderMessageID_fresh:
  assumes "errGetByProviderMessageID env = None"
    and "\<forall>m \<in> set (messageRows db). m_MessagingProviderID m \<noteq> Some pid"
  shows "GetByProviderMessageID env db pid = Inr None"
proof -
  have "filter (\<lambda>m. m_MessagingProviderID m = Some pid) (messageRows db) = []"
    using assms(2) by (simp add: filter_empty_conv)
  with assms(1) show ?thesis by (simp add: GetByProviderMessageID_def)
qed

lemma GetByProviderMessageID_found:
  assumes "errGetByProviderMessageID env = None"
    and "\<exists>m \<in> set (messageRows db). m_MessagingProviderID m = Some pid"
  shows "\<exists>m. GetByProviderMessageID env db pid = Inr (Some m)"
proof -
  have "filter (\<lambda>m. m_MessagingProviderID m = Some pid) (messageRows db) \<noteq> []"
    using assms(2) by (simp add: filter_empty_conv)
  with assms(1) show ?thesis
    by (simp add: GetByProviderMessageID_def split: list.splits)
qed

lemma GetByProviderMessageID_fails:
  assumes "errGetByProviderMessageID env = Some e"
  shows "GetByProviderMessageID env db pid = Inl (Wrap ''failed to get message by provider ID'' e)"
  using assms by (simp add: GetByProviderMessageID_def)

text \<open>The inbound operations, by the branch taken after validation.\<close>

lemma HandleInboundSMS_known:
  assumes "validateInboundSMSWebhook (validateNow env) (Some w) = None"
    and "GetByProviderMessageID env db (isms_MessagingProviderID w) = Inr (Some m)"
  shows "HandleInboundSMS env (Some w) db = (None, db)"
  using assms by (simp add: HandleInboundSMS_def)

lemma HandleInboundSMS_unknown:
  assumes "validateInboundSMSWebhook (validateNow env) (Some w) = None"
    and "\<forall>m. GetByProviderMessageID env db (isms_MessagingProviderID w) \<noteq> Inr (Some m)"
    and "createMessageRecord env db
           (buildInboundMessage (isms_From w) (isms_To w) (isms_Type w) (isms_Body w)
              (isms_Attachments w) (isms_Timestamp w) (isms_MessagingProviderID w)) = (None, db')"
  shows "HandleInboundSMS env (Some w) db = (None, db')"
proof (cases "GetByProviderMessageID env db (isms_MessagingProviderID w)")
  case (Inl e)
  with assms(1,3) show ?thesis by (simp add: HandleInboundSMS_def Let_def)
next
  case (Inr found)
  with assms(2) have "found = None" by (cases found) auto
  with Inr assms(1,3) show ?thesis by (simp add: HandleInboundSMS_def Let_def)
qed

lemma HandleInboundSMS_unknown_rows:
  assumes "validateInboundSMSWebhook (validateNow env) (Some w) = None"
    and "\<forall>m. GetByProviderMessageID env db (isms_MessagingProviderID w) \<noteq> Inr (Some m)"
    and "HandleInboundSMS env (Some w) db = (None, db')"
  shows "\<exists>m. messageRows db' = messageRows db @ [m] \<and>
             m_MessagingProviderID m = Some (isms_MessagingProviderID w) \<and>
             m_Status m = ''delivered''"
proof -
  let ?m = "buildInboundMessage (isms_From w) (isms_To w) (isms_Type w) (isms_Body w)
              (isms_Attachments w) (isms_Timestamp w) (isms_MessagingProviderID w)"
  obtain res db1 where c: "createMessageRecord env db ?m = (res, db1)"
    by (cases "createMessageRecord env db ?m")
  have "res = None \<and> db1 = db'"
  proof (cases "GetByProviderMessageID env db (isms_MessagingProviderID w)")
    case (Inl e)
    with assms(1,3) c show ?thesis
      by (auto simp: HandleInboundSMS_def Let_def split: option.splits)
  next
    case (Inr found)
    with assms(2) have "found = None" by (cases found) auto
    with Inr assms(1,3) c show ?thesis
      by (auto simp: HandleInboundSMS_def Let_def split: option.splits)
  qed
  with c have "createMessageRecord env db ?m = (None, db')" by simp
  from createMessageRecord_appends [OF this] show ?thesis
    by (auto simp: buildInboundMessage_def Let_def)
qed

lemma HandleInboundEmail_known:
  assumes "validateInboundEmailWebhook (validateNow env) (Some w) = None"
    and "GetByProviderMessageID env db (ieml_XillioID w) = Inr (Some m)"
  shows "HandleInboundEmail env (Some w) db = (None, db)"
  using assms by (simp add: HandleInboundEmail_def)

lemma HandleInboundEmail_unknown:
  assumes "validateInboundEmailWebhook (validateNow env) (Some w) = None"
    and "\<forall>m. GetByProviderMessageID env db (ieml_XillioID w) \<noteq> Inr (Some m)"
    and "createMessageRecord env db
           (buildInboundMessage (ieml_From w) (ieml_To w) MessageTypeEmail (ieml_Body w)
              (ieml_Attachments w) (ieml_Timestamp w) (ieml_XillioID w)) = (None, db')"
  shows "HandleInboundEmail env (Some w) db = (None, db')"
proof (cases "GetByProviderMessageID env db (ieml_XillioID w)")
  case (Inl e)
  with assms(1,3) show ?thesis by (simp add: HandleInboundEmail_def Let_def)
next
  case (Inr found)
  with assms(2) have "found = None" by (cases found) auto
  with Inr assms(1,3) show ?thesis by (simp add: HandleInboundEmail_def Let_def)
qed

lemma HandleInboundEmail_unknown_rows:
  assumes "validateInboundEmailWebhook (validateNow env) (Some w) = None"
    and "\<forall>m. GetByProviderMessageID env db (ieml_XillioID w) \<noteq> Inr (Some m)"
    and "HandleInboundEmail env (Some w) db = (None, db')"
  shows "\<exists>m. messageRows db' = messageRows db @ [m] \<and>
             m_MessagingProviderID m = Some (ieml_XillioID w) \<and>
             m_Status m = ''delivered''"
proof -
  let ?m = "buildInboundMessage (ieml_From w) (ieml_To w) MessageTypeEmail (ieml_Body w)
              (ieml_Attachments w) (ieml_Timestamp w) (ieml_XillioID w)"
  obtain res db1 where c: "createMessageRecord env db ?m = (res, db1)"
    by (cases "createMessageRecord env db ?m")
  have "res = None \<and> db1 = db'"
  proof (cases "GetByProviderMessageID env db (ieml_XillioID w)")
    case (Inl e)
    with assms(1,3) c show ?thesis
      by (auto simp: HandleInboundEmail_def Let_def split: option.splits)
  next
    case (Inr found)
    with assms(2) have "found = None" by (cases found) auto
    with Inr assms(1,3) c show ?thesis
      by (auto simp: HandleInboundEmail_def Let_def split: option.splits)
  qed
  with c have "createMessageRecord env db ?m = (None, db')" by simp
  from createMessageRecord_appends [OF this] show ?thesis
    by (auto simp: buildInboundMessage_def Let_def)
qed



text \<open>
  C4. Claim: for every valid inbound SMS webhook, two calls of \<open>HandleInboundSMS\<close> with
  the same provider message identifier persist exactly one message, and the second call
  returns success without any further side effect; the same for \<open>HandleInboundEmail\<close>,
  keyed on the \<open>XillioID\<close>.

  The replay is recognised only when its lookup returns without error. When the lookup
  of the replay fails, the other statements succeeding, both calls return success and
  the message is stored twice.
\<close>

theorem inbound_replay_counterexample:
  "fst (HandleInboundSMS testEnv (Some testInboundSMS) emptyDB) = None \<and>
   map m_MessagingProviderID
     (messageRows (snd (HandleInboundSMS testEnv (Some testInboundSMS) emptyDB)))
     = [Some ''message-1''] \<and>
   fst (HandleInboundSMS
          (testEnv\<lparr>errGetByProviderMessageID := Some (Errorf ''connection lost'')\<rparr>)
          (Some testInboundSMS)
          (snd (HandleInboundSMS testEnv (Some testInboundSMS) emptyDB))) = None \<and>
   map m_MessagingProviderID
     (messageRows (snd (HandleInboundSMS
          (testEnv\<lparr>errGetByProviderMessageID := Some (Errorf ''connection lost'')\<rparr>)
          (Some testInboundSMS)
          (snd (HandleInboundSMS testEnv (Some testInboundSMS) emptyDB)))))
     = [Some ''message-1'', Some ''message-1''] \<and>
   fst (HandleInboundEmail testEnv (Some testInboundEmail) emptyDB) = None \<and>
   map m_MessagingProviderID
     (messageRows (snd (HandleInboundEmail testEnv (Some testInboundEmail) emptyDB)))
     = [Some ''message-3''] \<and>
   fst (HandleInboundEmail
          (testEnv\<lparr>errGetByProviderMessageID := Some (Errorf ''connection lost'')\<rparr>)
          (Some testInboundEmail)
          (snd (HandleInboundEmail testEnv (Some testInboundEmail) emptyDB))) = None \<and>
   map m_MessagingProviderID
     (messageRows (snd (HandleInboundEmail
          (testEnv\<lparr>errGetByProviderMessageID := Some (Errorf ''connection lost'')\<rparr>)
          (Some testInboundEmail)
          (snd (HandleInboundEmail testEnv (Some testInboundEmail) emptyDB)))))
     = [Some ''message-3'', Some ''message-3'']"
  by code_simp

text \<open>
  C4, amended. A valid inbound SMS webhook whose provider message identifier no stored
  message carries, handled twice, the repository statements of the first handling and
  the lookup of the second returning without error: the first call appends exactly one
  message, with that identifier; the second returns success and leaves the database as
  the first left it. The same for \<open>HandleInboundEmail\<close>, keyed on the \<open>XillioID\<close>.
\<close>

theorem inbound_idempotent:
  "(validateInboundSMSWebhook (validateNow env1) (Some w1) = None \<and>
    validateInboundSMSWebhook (validateNow env2) (Some w2) = None \<and>
    isms_MessagingProviderID w2 = isms_MessagingProviderID w1 \<and>
    (\<forall>m \<in> set (messageRows db). m_MessagingProviderID m \<noteq> Some (isms_MessagingProviderID w1)) \<and>
    errGetByProviderMessageID env1 = None \<and> errGetByContacts env1 = None \<and>
    errCreateConversation env1 = None \<and> errCreateMessage env1 = None \<and>
    errGetByProviderMessageID env2 = None
    \<longrightarrow> (\<exists>db1 m. HandleInboundSMS env1 (Some w1) db = (None, db1) \<and>
                 messageRows db1 = messageRows db @ [m] \<and>
                 m_MessagingProviderID m = Some (isms_MessagingProviderID w1) \<and>
                 HandleInboundSMS env2 (Some w2) db1 = (None, db1))) \<and>
   (validateInboundEmailWebhook (validateNow env1) (Some e1) = None \<and>
    validateInboundEmailWebhook (validateNow env2) (Some e2) = None \<and>
    ieml_XillioID e2 = ieml_XillioID e1 \<and>
    (\<forall>m \<in> set (messageRows db). m_MessagingProviderID m \<noteq> Some (ieml_XillioID e1)) \<and>
    errGetByProviderMessageID env1 = None \<and> errGetByContacts env1 = None \<and>
    errCreateConversation env1 = None \<and> errCreateMessage env1 = None \<and>
    errGetByProviderMessageID env2 = None
    \<longrightarrow> (\<exists>db1 m. HandleInboundEmail env1 (Some e1) db = (None, db1) \<and>
                 messageRows db1 = messageRows db @ [m] \<and>
                 m_MessagingProviderID m = Some (ieml_XillioID e1) \<and>
                 HandleInboundEmail env2 (Some e2) db1 = (None, db1)))"
proof (intro conjI impI)
  assume h: "validateInboundSMSWebhook (validateNow env1) (Some w1) = None \<and>
    validateInboundSMSWebhook (validateNow env2) (Some w2) = None \<and>
    isms_MessagingProviderID w2 = isms_MessagingProviderID w1 \<and>
    (\<forall>m \<in> set (messageRows db). m_MessagingProviderID m \<noteq> Some (isms_MessagingProviderID w1)) \<and>
    errGetByProviderMessageID env1 = None \<and> errGetByContacts env1 = None \<and>
    errCreateConversation env1 = None \<and> errCreateMessage env1 = None \<and>
    errGetByProviderMessageID env2 = None"
  let ?pid = "isms_MessagingProviderID w1"
  let ?m = "buildInboundMessage (isms_From w1) (isms_To w1) (isms_Type w1) (isms_Body w1)
              (isms_Attachments w1) (isms_Timestamp w1) ?pid"
  from h have lookup: "GetByProviderMessageID env1 db ?pid = Inr None"
    by (intro GetByProviderMessageID_fresh) simp_all
  from h obtain db1 where c: "createMessageRecord env1 db ?m = (None, db1)"
    using createMessageRecord_succeeds [of env1 db ?m] by auto
  have first: "HandleInboundSMS env1 (Some w1) db = (None, db1)"
    using h lookup c by (intro HandleInboundSMS_unknown) simp_all
  from createMessageRecord_appends [OF c]
  obtain m where m: "messageRows db1 = messageRows db @ [m]"
      "m_MessagingProviderID m = Some ?pid"
    by (auto simp: buildInboundMessage_def Let_def)
  then have "\<exists>x \<in> set (messageRows db1). m_MessagingProviderID x = Some ?pid"
    by auto
  with h obtain found where "GetByProviderMessageID env2 db1 ?pid = Inr (Some found)"
    using GetByProviderMessageID_found [of env2 db1 ?pid] by auto
  with h have second: "HandleInboundSMS env2 (Some w2) db1 = (None, db1)"
    by (intro HandleInboundSMS_known [of env2 w2 db1 found]) simp_all
  from first m second
  show "\<exists>db1 m. HandleInboundSMS env1 (Some w1) db = (None, db1) \<and>
                 messageRows db1 = messageRows db @ [m] \<and>
                 m_MessagingProviderID m = Some ?pid \<and>
                 HandleInboundSMS env2 (Some w2) db1 = (None, db1)"
    by blast
next
  assume h: "validateInboundEmailWebhook (validateNow env1) (Some e1) = None \<and>
    validateInboundEmailWebhook (validateNow env2) (Some e2) = None \<and>
    ieml_XillioID e2 = ieml_XillioID e1 \<and>
    (\<forall>m \<in> set (messageRows db). m_MessagingProviderID m \<noteq> Some (ieml_XillioID e1)) \<and>
    errGetByProviderMessageID env1 = None \<and> errGetByContacts env1 = None \<and>
    errCreateConversation env1 = None \<and> errCreateMessage env1 = None \<and>
    errGetByProviderMessageID env2 = None"
  let ?pid = "ieml_XillioID e1"
  let ?m = "buildInboundMessage (ieml_From e1) (ieml_To e1) MessageTypeEmail (ieml_Body e1)
              (ieml_Attachments e1) (ieml_Timestamp e1) ?pid"
  from h have lookup: "GetByProviderMessageID env1 db ?pid = Inr None"
    by (intro GetByProviderMessageID_fresh) simp_all
  from h obtain db1 where c: "createMessageRecord env1 db ?m = (None, db1)"
    using createMessageRecord_succeeds [of env1 db ?m] by auto
  have first: "HandleInboundEmail env1 (Some e1) db = (None, db1)"
    using h lookup c by (intro HandleInboundEmail_unknown) simp_all
  from createMessageRecord_appends [OF c]
  obtain m where m: "messageRows db1 = messageRows db @ [m]"
      "m_MessagingProviderID m = Some ?pid"
    by (auto simp: buildInboundMessage_def Let_def)
  then have "\<exists>x \<in> set (messageRows db1). m_MessagingProviderID x = Some ?pid"
    by auto
  with h obtain found where "GetByProviderMessageID env2 db1 ?pid = Inr (Some found)"
    using GetByProviderMessageID_found [of env2 db1 ?pid] by auto
  with h have second: "HandleInboundEmail env2 (Some e2) db1 = (None, db1)"
    by (intro HandleInboundEmail_known [of env2 e2 db1 found]) simp_all
  from first m second
  show "\<exists>db1 m. HandleInboundEmail env1 (Some e1) db = (None, db1) \<and>
                 messageRows db1 = messageRows db @ [m] \<and>
                 m_MessagingProviderID m = Some ?pid \<and>
                 HandleInboundEmail env2 (Some e2) db1 = (None, db1)"
    by blast
qed


theorem inbound_idempotent_witness:
  "validateInboundSMSWebhook (validateNow testEnv) (Some testInboundSMS) = None \<and>
   (\<exists>db1 m. HandleInboundSMS testEnv (Some testInboundSMS) emptyDB = (None, db1) \<and>
            messageRows db1 = messageRows emptyDB @ [m] \<and>
            m_MessagingProviderID m = Some (isms_MessagingProviderID testInboundSMS) \<and>
            HandleInboundSMS testEnv (Some testInboundSMS) db1 = (None, db1)) \<and>
   validateInboundEmailWebhook (validateNow testEnv) (Some testInboundEmail) = None \<and>
   (\<exists>db1 m. HandleInboundEmail testEnv (Some testInboundEmail) emptyDB = (None, db1) \<and>
            messageRows db1 = messageRows emptyDB @ [m] \<and>
            m_MessagingProviderID m = Some (ieml_XillioID testInboundEmail) \<and>
            HandleInboundEmail testEnv (Some testInboundEmail) db1 = (None, db1))"
proof -
  have sms: "validateInboundSMSWebhook (validateNow testEnv) (Some testInboundSMS) = None"
    by code_simp
  have email: "validateInboundEmailWebhook (validateNow testEnv) (Some testInboundEmail) = None"
    by code_simp
  have env: "errGetByProviderMessageID testEnv = None" "errGetByContacts testEnv = None"
    "errCreateConversation testEnv = None" "errCreateMessage testEnv = None"
    by (simp_all add: testEnv_def)
  have fresh: "\<forall>m \<in> set (messageRows emptyDB). m_MessagingProviderID m \<noteq> Some pid" for pid
    by (simp add: emptyDB_def)
  have c1: "\<exists>db1 m. HandleInboundSMS testEnv (Some testInboundSMS) emptyDB = (None, db1) \<and>
            messageRows db1 = messageRows emptyDB @ [m] \<and>
            m_MessagingProviderID m = Some (isms_MessagingProviderID testInboundSMS) \<and>
            HandleInboundSMS testEnv (Some testInboundSMS) db1 = (None, db1)"
    by (rule inbound_idempotent [THEN conjunct1, rule_format]) (intro conjI sms env fresh refl)
  have c2: "\<exists>db1 m. HandleInboundEmail testEnv (Some testInboundEmail) emptyDB = (None, db1) \<and>
            messageRows db1 = messageRows emptyDB @ [m] \<and>
            m_MessagingProviderID m = Some (ieml_XillioID testInboundEmail) \<and>
            HandleInboundEmail testEnv (Some testInboundEmail) db1 = (None, db1)"
    by (rule inbound_idempotent [THEN conjunct2, rule_format]) (intro conjI email env fresh refl)
  show ?thesis
    by (intro conjI sms c1 email c2)
qed

text \<open>
  After validation, an inbound call that returns success and leaves the database as it
  was has found the message: the other branch, when it succeeds, adds a row.
\<close>

lemma HandleInboundSMS_suppressed_iff:
  assumes "validateInboundSMSWebhook (validateNow env) (Some w) = None"
  shows "HandleInboundSMS env (Some w) db = (None, db) \<longleftrightarrow>
         (\<exists>m. GetByProviderMessageID env db (isms_MessagingProviderID w) = Inr (Some m))"
proof
  assume r: "HandleInboundSMS env (Some w) db = (None, db)"
  show "\<exists>m. GetByProviderMessageID env db (isms_MessagingProviderID w) = Inr (Some m)"
  proof (rule ccontr)
    assume "\<not> (\<exists>m. GetByProviderMessageID env db (isms_MessagingProviderID w) = Inr (Some m))"
    then have "\<forall>m. GetByProviderMessageID env db (isms_MessagingProviderID w) \<noteq> Inr (Some m)"
      by simp
    from HandleInboundSMS_unknown_rows [OF assms this r] show False by simp
  qed
next
  assume "\<exists>m. GetByProviderMessageID env db (isms_MessagingProviderID w) = Inr (Some m)"
  with assms show "HandleInboundSMS env (Some w) db = (None, db)"
    by (auto simp: HandleInboundSMS_known)
qed

lemma HandleInboundEmail_suppressed_iff:
  assumes "validateInboundEmailWebhook (validateNow env) (Some w) = None"
  shows "HandleInboundEmail env (Some w) db = (None, db) \<longleftrightarrow>
         (\<exists>m. GetByProviderMessageID env db (ieml_XillioID w) = Inr (Some m))"
proof
  assume r: "HandleInboundEmail env (Some w) db = (None, db)"
  show "\<exists>m. GetByProviderMessageID env db (ieml_XillioID w) = Inr (Some m)"
  proof (rule ccontr)
    assume "\<not> (\<exists>m. GetByProviderMessageID env db (ieml_XillioID w) = Inr (Some m))"
    then have "\<forall>m. GetByProviderMessageID env db (ieml_XillioID w) \<noteq> Inr (Some m)"
      by simp
    from HandleInboundEmail_unknown_rows [OF assms this r] show False by simp
  qed
next
  assume "\<exists>m. GetByProviderMessageID env db (ieml_XillioID w) = Inr (Some m)"
  with assms show "HandleInboundEmail env (Some w) db = (None, db)"
    by (auto simp: HandleInboundEmail_known)
qed

lemma HandleInboundSMS_lookup_fails:
  assumes "validateInboundSMSWebhook (validateNow env) (Some w) = None"
    and "errGetByProviderMessageID env = Some e" and "errGetByContacts env = None"
    and "errCreateConversation env = None" and "errCreateMessage env = None"
  shows "\<exists>db' m. HandleInboundSMS env (Some w) db = (None, db') \<and>
           messageRows db' = messageRows db @ [m] \<and>
           m_MessagingProviderID m = Some (isms_MessagingProviderID w)"
proof -
  let ?m = "buildInboundMessage (isms_From w) (isms_To w) (isms_Type w) (isms_Body w)
              (isms_Attachments w) (isms_Timestamp w) (isms_MessagingProviderID w)"
  have lookup: "\<forall>m. GetByProviderMessageID env db (isms_MessagingProviderID w) \<noteq> Inr (Some m)"
    using assms(2) by (simp add: GetByProviderMessageID_fails)
  obtain db' where c: "createMessageRecord env db ?m = (None, db')"
    using createMessageRecord_succeeds [OF assms(3,4,5), of db ?m] by auto
  have "HandleInboundSMS env (Some w) db = (None, db')"
    using assms(1) lookup c by (rule HandleInboundSMS_unknown)
  with HandleInboundSMS_unknown_rows [OF assms(1) lookup this] show ?thesis by blast
qed

lemma HandleInboundEmail_lookup_fails:
  assumes "validateInboundEmailWebhook (validateNow env) (Some w) = None"
    and "errGetByProviderMessageID env = Some e" and "errGetByContacts env = None"
    and "errCreateConversation env = None" and "errCreateMessage env = None"
  shows "\<exists>db' m. HandleInboundEmail env (Some w) db = (None, db') \<and>
           messageRows db' = messageRows db @ [m] \<and>
           m_MessagingProviderID m = Some (ieml_XillioID w)"
proof -
  let ?m = "buildInboundMessage (ieml_From w) (ieml_To w) MessageTypeEmail (ieml_Body w)
              (ieml_Attachments w) (ieml_Timestamp w) (ieml_XillioID w)"
  have lookup: "\<forall>m. GetByProviderMessageID env db (ieml_XillioID w) \<noteq> Inr (Some m)"
    using assms(2) by (simp add: GetByProviderMessageID_fails)
  obtain db' where c: "createMessageRecord env db ?m = (None, db')"
    using createMessageRecord_succeeds [OF assms(3,4,5), of db ?m] by auto
  have "HandleInboundEmail env (Some w) db = (None, db')"
    using assms(1) lookup c by (rule HandleInboundEmail_unknown)
  with HandleInboundEmail_unknown_rows [OF assms(1) lookup this] show ?thesis by blast
qed

text \<open>
  C10. In \<open>HandleInboundSMS\<close> and \<open>HandleInboundEmail\<close>, after validation, the call
  returns success with the database untouched exactly when the lookup returns a message
  without error. When the lookup returns an error (the other statements succeeding), the
  message is recorded as a new row, whether or not a message with its identifier is
  stored already.
\<close>

theorem inbound_lookup_error_duplicates:
  "(validateInboundSMSWebhook (validateNow env) (Some w) = None \<longrightarrow>
      (HandleInboundSMS env (Some w) db = (None, db) \<longleftrightarrow>
         (\<exists>m. GetByProviderMessageID env db (isms_MessagingProviderID w) = Inr (Some m))) \<and>
      (errGetByProviderMessageID env = Some e \<and> errGetByContacts env = None \<and>
       errCreateConversation env = None \<and> errCreateMessage env = None \<longrightarrow>
         (\<exists>db' m. HandleInboundSMS env (Some w) db = (None, db') \<and>
                  messageRows db' = messageRows db @ [m] \<and>
                  m_MessagingProviderID m = Some (isms_MessagingProviderID w)))) \<and>
   (validateInboundEmailWebhook (validateNow env) (Some w') = None \<longrightarrow>
      (HandleInboundEmail env (Some w') db = (None, db) \<longleftrightarrow>
         (\<exists>m. GetByProviderMessageID env db (ieml_XillioID w') = Inr (Some m))) \<and>
      (errGetByProviderMessageID env = Some e \<and> errGetByContacts env = None \<and>
       errCreateConversation env = None \<and> errCreateMessage env = None \<longrightarrow>
         (\<exists>db' m. HandleInboundEmail env (Some w') db = (None, db') \<and>
                  messageRows db' = messageRows db @ [m] \<and>
                  m_MessagingProviderID m = Some (ieml_XillioID w'))))"
  using HandleInboundSMS_suppressed_iff [of env w db]
    HandleInboundSMS_lookup_fails [of env w e db]
    HandleInboundEmail_suppressed_iff [of env w' db]
    HandleInboundEmail_lookup_fails [of env w' e db]
  by blast


theorem inbound_lookup_error_duplicates_witness:
  "validateInboundSMSWebhook
     (validateNow (testEnv\<lparr>errGetByProviderMessageID := Some (Errorf ''connection lost'')\<rparr>))
     (Some testInboundSMS) = None \<and>
   (\<exists>db' m. HandleInboundSMS
               (testEnv\<lparr>errGetByProviderMessageID := Some (Errorf ''connection lost'')\<rparr>)
               (Some testInboundSMS)
               (snd (HandleInboundSMS testEnv (Some testInboundSMS) emptyDB)) = (None, db') \<and>
            messageRows db'
              = messageRows (snd (HandleInboundSMS testEnv (Some testInboundSMS) emptyDB)) @ [m] \<and>
            m_MessagingProviderID m = Some (isms_MessagingProviderID testInboundSMS)) \<and>
   length (filter (\<lambda>m. m_MessagingProviderID m = Some ''message-1'')
      (messageRows (snd (HandleInboundSMS
          (testEnv\<lparr>errGetByProviderMessageID := Some (Errorf ''connection lost'')\<rparr>)
          (Some testInboundSMS)
          (snd (HandleInboundSMS testEnv (Some testInboundSMS) emptyDB)))))) = 2 \<and>
   validateInboundEmailWebhook
     (validateNow (testEnv\<lparr>errGetByProviderMessageID := Some (Errorf ''connection lost'')\<rparr>))
     (Some testInboundEmail) = None \<and>
   (\<exists>db' m. HandleInboundEmail
               (testEnv\<lparr>errGetByProviderMessageID := Some (Errorf ''connection lost'')\<rparr>)
               (Some testInboundEmail)
               (snd (HandleInboundEmail testEnv (Some testInboundEmail) emptyDB)) = (None, db') \<and>
            messageRows db'
              = messageRows (snd (HandleInboundEmail testEnv (Some testInboundEmail) emptyDB)) @ [m] \<and>
            m_MessagingProviderID m = Some (ieml_XillioID testInboundEmail))"
proof -
  let ?env = "testEnv\<lparr>errGetByProviderMessageID := Some (Errorf ''connection lost'')\<rparr>"
  have sms: "validateInboundSMSWebhook (validateNow ?env) (Some testInboundSMS) = None"
    by code_simp
  have email: "validateInboundEmailWebhook (validateNow ?env) (Some testInboundEmail) = None"
    by code_simp
  have env: "errGetByProviderMessageID ?env = Some (Errorf ''connection lost'') \<and>
      errGetByContacts ?env = None \<and> errCreateConversation ?env = None \<and>
      errCreateMessage ?env = None"
    by (simp add: testEnv_def)
  have two: "length (filter (\<lambda>m. m_MessagingProviderID m = Some ''message-1'')
      (messageRows (snd (HandleInboundSMS ?env (Some testInboundSMS)
          (snd (HandleInboundSMS testEnv (Some testInboundSMS) emptyDB)))))) = 2"
    by code_simp
  note sms_part = inbound_lookup_error_duplicates
    [THEN conjunct1, rule_format, OF sms, THEN conjunct2, rule_format, OF env]
  note email_part = inbound_lookup_error_duplicates
    [THEN conjunct2, rule_format, OF email, THEN conjunct2, rule_format, OF env]
  show ?thesis
    by (intro conjI sms sms_part two email email_part)
qed

end
